theory Spec2Isabelle
  imports Complex_Main "HOL-Library.Word"
begin

section \<open>Wow and flutter meter: the measurement core\<close>

text \<open>
  A shallow embedding of \<^verbatim>\<open>flutter_meter.c\<close> and \<^verbatim>\<open>filters.c\<close>.

  Conventions of the embedding:
  \<^item> a C \<^verbatim>\<open>double\<close> is a \<^typ>\<open>real\<close>: arithmetic is exact and there is no rounding.
    The division by \<^verbatim>\<open>valid_sample_count\<close> at the one-second boundary has a zero divisor
    whenever no crossing was emitted in that second: its result, the slots of
    \<^verbatim>\<open>max_rms_array\<close> and \<^verbatim>\<open>result_rms_percent\<close> are of the type \<open>xreal\<close>, which has
    infinity and NaN, and they are compared as IEEE 754 compares them;
  \<^item> a C \<^verbatim>\<open>int\<close> is an \<^typ>\<open>int\<close>. The conversion of a \<^verbatim>\<open>double\<close> to \<^verbatim>\<open>int\<close> and the
    product \<^verbatim>\<open>samples_per_100ms * 100\<close> are modelled with their 32-bit range; the counters
    and the difference of two truncated isolator outputs are assumed to stay in range;
  \<^item> a C \<^verbatim>\<open>short\<close> is an \<^typ>\<open>int\<close> in the range of a 16-bit two's complement word;
    the conversion from \<^verbatim>\<open>int\<close> wraps and is written out (\<open>short_of_int\<close>);
  \<^item> the module-scoped variables of both files, and the function-local static
    \<^verbatim>\<open>previous_sample_raw\<close>, are the fields of one record that every function takes
    and returns;
  \<^item> the sample array is a list; \<^verbatim>\<open>samples += n\<close> drops \<open>n\<close> elements. A window
    reads the next \<^verbatim>\<open>samples_per_100ms\<close> elements; where a property depends on them being
    there, it assumes that the list holds the announced number of samples;
  \<^item> \<^verbatim>\<open>sqrt\<close> of a negative value is NaN, as in C.
\<close>

subsection \<open>C conversions\<close>

definition int_of_double :: "real \<Rightarrow> int" where
  \<comment> \<open>\<^verbatim>\<open>(int) x\<close>: truncation toward zero. Where the truncated value is not a 32-bit
      \<^verbatim>\<open>int\<close>, C leaves the conversion undefined; the conversion instruction of the x86
      targets of this DLL gives \<open>INT_MIN\<close>, and so does the model.\<close>
  "int_of_double x =
     (if - 2147483649 < x \<and> x < 2147483648 then (if 0 \<le> x then \<lfloor>x\<rfloor> else \<lceil>x\<rceil>)
      else - 2147483648)"

definition int32 :: "int \<Rightarrow> int" where
  \<comment> \<open>the value of a 32-bit \<^verbatim>\<open>int\<close> operation whose exact result is \<open>x\<close>: it wraps around\<close>
  "int32 x = sint (word_of_int x :: 32 word)"

definition short_of_int :: "int \<Rightarrow> int" where
  \<comment> \<open>\<^verbatim>\<open>short sample = samples[i]\<close>: the low 16 bits, read as two's complement\<close>
  "short_of_int x = sint (word_of_int x :: 16 word)"

definition c_div :: "int \<Rightarrow> int \<Rightarrow> int" where
  \<comment> \<open>\<^verbatim>\<open>a / b\<close> on \<^verbatim>\<open>int\<close>: the quotient truncated toward zero\<close>
  "c_div a b = sgn a * sgn b * (\<bar>a\<bar> div \<bar>b\<bar>)"

subsection \<open>Doubles that may be infinite or NaN\<close>

datatype xreal = Finite real | PInf | NaN

fun xgt :: "xreal \<Rightarrow> xreal \<Rightarrow> bool" where
  \<comment> \<open>\<^verbatim>\<open>a > b\<close>: false as soon as one side is NaN\<close>
  "xgt (Finite a) (Finite b) = (a > b)"
| "xgt PInf (Finite b) = True"
| "xgt a b = False"

definition rms_percent_of :: "real \<Rightarrow> int \<Rightarrow> xreal" where
  \<comment> \<open>\<^verbatim>\<open>sqrt(total_sum_of_squares / valid_sample_count) * 100\<close>: \<open>0.0 / 0\<close> is NaN, a
      positive value over 0 is infinite, and the root of a negative quotient is NaN\<close>
  "rms_percent_of sum_sq n =
     (if n = 0 then (if 0 < sum_sq then PInf else NaN)
      else if sum_sq / real_of_int n < 0 then NaN
      else Finite (sqrt (sum_sq / real_of_int n) * 100))"

subsection \<open>State\<close>

record meter =
  buf2nd_order :: "real list"
  buf_din :: "real list"
  buf_unw :: "real list"
  buf_wow :: "real list"
  buf_flutter :: "real list"
  previous_sample :: int
  current_interval_ns :: real
  interval_remainder_ns :: real
  nanoseconds_per_sample :: real
  expected_half_period_ns :: real
  test_frequency_hz :: int
  min_zero_crossings :: int
  max_zero_crossings :: int
  samples_per_100ms :: int
  filter_input :: real
  filter_output :: real
  is_first_buffer :: int
  valid_sample_count :: int
  interval_sum_ns :: real
  average_interval_ns :: real
  measured_frequency_hz :: real
  rms_1sec_buffer_index :: nat
  buffer_rms_1sec_sums :: "real list"
  peak_values_100ms :: "real list"
  peak_index_100ms :: nat
  max_rms_array :: "xreal list"
  current_quasi_peak :: real
  result_rms_percent :: xreal
  result_quasi_peak :: real
  result_frequency_hz :: real
  previous_sample_raw :: int

text \<open>The variables local to one call of \<^verbatim>\<open>process_samples\<close>.\<close>

record call_vars =
  freq_sum_5sec :: real
  freq_count_5sec :: int

text \<open>The variables local to one 100 ms window.\<close>

record window_vars =
  sum_of_squares :: real
  max_quasi_peak :: real

subsection \<open>Filters\<close>

definition memmove_left :: "nat \<Rightarrow> real list \<Rightarrow> real list" where
  \<comment> \<open>\<^verbatim>\<open>memmove(buf, buf + 1, n * sizeof(double))\<close>\<close>
  "memmove_left n buf = take n (drop 1 buf) @ drop n buf"

definition reset_filters :: "meter \<Rightarrow> meter" where
  "reset_filters s = s\<lparr>
     buf2nd_order := replicate 4 0,
     buf_din := replicate 8 0,
     buf_unw := replicate 8 0,
     buf_wow := replicate 8 0,
     buf_flutter := replicate 8 0\<rparr>"

definition process_2nd_order :: "real \<Rightarrow> real list \<Rightarrow> real \<times> real list" where
  "process_2nd_order val buf0 =
    (let tmp = buf0 ! 0;
         buf = memmove_left 3 buf0;
         iir = val * 0.001207405190260069;
         iir = iir - 0.9483625336008361 * tmp;
         fir = tmp;
         iir = iir - (- 1.73410899821474) * buf ! 0;
         fir = fir + (- (buf ! 0) - buf ! 0);
         fir = fir + iir;
         tmp = buf ! 1;
         buf = buf[1 := iir];
         val = fir;
         iir = val;
         iir = iir - 0.9533938855978508 * tmp;
         fir = tmp;
         iir = iir - (- 1.781298800713404) * buf ! 2;
         fir = fir + (buf ! 2 + buf ! 2);
         fir = fir + iir;
         buf = buf[3 := iir];
         val = fir
     in (val, buf))"

definition process_DIN :: "real \<Rightarrow> real list \<Rightarrow> real \<times> real list" where
  "process_DIN val buf0 =
    (let tmp = buf0 ! 0;
         buf = memmove_left 7 buf0;
         iir = val * (9.886712475608222 / 10 ^ 7);
         iir = iir - 0.9718381574433894 * tmp;
         fir = tmp;
         iir = iir - (- 1.971551266567659) * buf ! 0;
         fir = fir + (- (buf ! 0) - buf ! 0);
         fir = fir + iir;
         tmp = buf ! 1;
         buf = buf[1 := iir];
         val = fir;
         iir = val;
         iir = iir - 0.9982440100378892 * tmp;
         fir = tmp;
         iir = iir - (- 1.998242909436813) * buf ! 2;
         fir = fir + (buf ! 2 + buf ! 2);
         fir = fir + iir;
         tmp = buf ! 3;
         buf = buf[3 := iir];
         val = fir;
         iir = val;
         iir = iir - 0.6434545131997782 * tmp;
         fir = tmp;
         iir = iir - (- 1.591050960239724) * buf ! 4;
         fir = fir + (buf ! 4 + buf ! 4);
         fir = fir + iir;
         tmp = buf ! 5;
         buf = buf[5 := iir];
         val = fir;
         iir = val;
         iir = iir - 0.9997284329050403 * tmp;
         fir = tmp;
         iir = iir - (- 1.999728408318806) * buf ! 6;
         fir = fir + (- (buf ! 6) - buf ! 6);
         fir = fir + iir;
         buf = buf[7 := iir];
         val = fir
     in (val, buf))"

definition process_unweighted :: "real \<Rightarrow> real list \<Rightarrow> real \<times> real list" where
  "process_unweighted val buf0 =
    (let tmp = buf0 ! 0;
         buf = memmove_left 7 buf0;
         iir = val * 0.0003306520826380572;
         iir = iir - 0.6753463035083248 * tmp;
         fir = tmp;
         iir = iir - (- 1.591483463373453) * buf ! 0;
         fir = fir + (- (buf ! 0) - buf ! 0);
         fir = fir + iir;
         tmp = buf ! 1;
         buf = buf[1 := iir];
         val = fir;
         iir = val;
         iir = iir - 0.9997682212465883 * tmp;
         fir = tmp;
         iir = iir - (- 1.999768186333123) * buf ! 2;
         fir = fir + (- (buf ! 2) - buf ! 2);
         fir = fir + iir;
         tmp = buf ! 3;
         buf = buf[3 := iir];
         val = fir;
         iir = val;
         iir = iir - 0.5771462662841257 * tmp;
         fir = tmp;
         iir = iir - (- 1.514102287557188) * buf ! 4;
         fir = fir + (buf ! 4 + buf ! 4);
         fir = fir + iir;
         tmp = buf ! 5;
         buf = buf[5 := iir];
         val = fir;
         iir = val;
         iir = iir - 0.9995984565721876 * tmp;
         fir = tmp;
         iir = iir - (- 1.999598412629212) * buf ! 6;
         fir = fir + (buf ! 6 + buf ! 6);
         fir = fir + iir;
         buf = buf[7 := iir];
         val = fir
     in (val, buf))"

definition process_wow :: "real \<Rightarrow> real list \<Rightarrow> real \<times> real list" where
  "process_wow val buf0 =
    (let tmp = buf0 ! 0;
         buf = memmove_left 7 buf0;
         iir = val * (3.386435216458736 / 10 ^ 10);
         iir = iir - 0.9889822559361133 * tmp;
         fir = tmp;
         iir = iir - (- 1.988898714745282) * buf ! 0;
         fir = fir + (- (buf ! 0) - buf ! 0);
         fir = fir + iir;
         tmp = buf ! 1;
         buf = buf[1 := iir];
         val = fir;
         iir = val;
         iir = iir - 0.9997639015233543 * tmp;
         fir = tmp;
         iir = iir - (- 1.999763863368945) * buf ! 2;
         fir = fir + (- (buf ! 2) - buf ! 2);
         fir = fir + iir;
         tmp = buf ! 3;
         buf = buf[3 := iir];
         val = fir;
         iir = val;
         iir = iir - 0.9849666019626395 * tmp;
         fir = tmp;
         iir = iir - (- 1.984903954482672) * buf ! 4;
         fir = fir + (buf ! 4 + buf ! 4);
         fir = fir + iir;
         tmp = buf ! 5;
         buf = buf[5 := iir];
         val = fir;
         iir = val;
         iir = iir - 0.9995704510105757 * tmp;
         fir = tmp;
         iir = iir - (- 1.999570400238568) * buf ! 6;
         fir = fir + (buf ! 6 + buf ! 6);
         fir = fir + iir;
         buf = buf[7 := iir];
         val = fir
     in (val, buf))"

definition process_flutter :: "real \<Rightarrow> real list \<Rightarrow> real \<times> real list" where
  "process_flutter val buf0 =
    (let tmp = buf0 ! 0;
         buf = memmove_left 7 buf0;
         iir = val * 0.0002980764585582655;
         iir = iir - 0.6858715731999449 * tmp;
         fir = tmp;
         iir = iir - (- 1.605649703918556) * buf ! 0;
         fir = fir + (- (buf ! 0) - buf ! 0);
         fir = fir + iir;
         tmp = buf ! 1;
         buf = buf[1 := iir];
         val = fir;
         iir = val;
         iir = iir - 0.9953215690037556 * tmp;
         fir = tmp;
         iir = iir - (- 1.995306892110805) * buf ! 2;
         fir = fir + (- (buf ! 2) - buf ! 2);
         fir = fir + iir;
         tmp = buf ! 3;
         buf = buf[3 := iir];
         val = fir;
         iir = val;
         iir = iir - 0.5910983651395704 * tmp;
         fir = tmp;
         iir = iir - (- 1.532453681510474) * buf ! 4;
         fir = fir + (buf ! 4 + buf ! 4);
         fir = fir + iir;
         tmp = buf ! 5;
         buf = buf[5 := iir];
         val = fir;
         iir = val;
         iir = iir - 0.9916845997627537 * tmp;
         fir = tmp;
         iir = iir - (- 1.991665582083071) * buf ! 6;
         fir = fir + (buf ! 6 + buf ! 6);
         fir = fir + iir;
         buf = buf[7 := iir];
         val = fir
     in (val, buf))"

subsection \<open>Initialisation\<close>

definition flutterMeter_init :: "int \<Rightarrow> real \<Rightarrow> meter \<Rightarrow> meter" where
  "flutterMeter_init sample_rate test_frequency s0 =
    (let s = s0\<lparr>result_rms_percent := Finite 0, result_quasi_peak := 0,
                  result_frequency_hz := 0\<rparr>;
         s = reset_filters s;
         s = s\<lparr>test_frequency_hz := int_of_double test_frequency\<rparr>;
         s = s\<lparr>expected_half_period_ns := 0.5 * 10 ^ 9 / test_frequency\<rparr>;
         s = s\<lparr>min_zero_crossings :=
                 int_of_double (real_of_int (c_div (test_frequency_hz s) 5) * 0.95)\<rparr>;
         s = s\<lparr>max_zero_crossings :=
                 int_of_double (real_of_int (c_div (test_frequency_hz s) 5) * 1.05)\<rparr>;
         s = s\<lparr>samples_per_100ms := c_div sample_rate 10\<rparr>;
         s = s\<lparr>nanoseconds_per_sample := 10 ^ 9 / real_of_int sample_rate\<rparr>;
         s = s\<lparr>is_first_buffer := 1,
               rms_1sec_buffer_index := 0,
               interval_sum_ns := 0,
               average_interval_ns := 0,
               current_interval_ns := 0,
               interval_remainder_ns := 0,
               previous_sample := 0,
               current_quasi_peak := 0\<rparr>;
         s = s\<lparr>buffer_rms_1sec_sums := replicate 10 0\<rparr>;
         s = s\<lparr>peak_values_100ms := replicate 50 0,
               max_rms_array := replicate 50 (Finite 0)\<rparr>;
         s = s\<lparr>peak_index_100ms := 0\<rparr>
     in s)"

subsection \<open>The gate: first pass over a 100 ms window\<close>

text \<open>
  One iteration of the first loop of a window. The triple is
  \<open>(max_amplitude, zero_crossing_count, previous_sample_raw)\<close>.
\<close>

fun gate_step :: "int \<Rightarrow> int \<times> int \<times> int \<Rightarrow> int \<times> int \<times> int" where
  "gate_step raw (max_amplitude, zero_crossing_count, prev_raw) =
    (let sample = short_of_int raw;
         max_amplitude = (if sample > max_amplitude then sample else max_amplitude);
         zero_crossing_count =
           (if (sample \<ge> 0 \<and> prev_raw < 0) \<or> (sample < 0 \<and> prev_raw \<ge> 0)
            then zero_crossing_count + 1 else zero_crossing_count)
     in (max_amplitude, zero_crossing_count, sample))"

definition gate_pass :: "int list \<Rightarrow> int \<Rightarrow> int \<times> int \<times> int" where
  "gate_pass block prev_raw = fold gate_step block (0, 0, prev_raw)"

subsection \<open>The crossing detector: one sample of the second pass\<close>

definition interpolation_denom :: "int \<Rightarrow> int \<Rightarrow> real" where
  "interpolation_denom current_sample_value prev =
    (let denom = real_of_int (current_sample_value - prev)
     in if \<bar>denom\<bar> < 1 / 10 ^ 9
        then (if denom \<ge> 0 then 1 / 10 ^ 9 else - (1 / 10 ^ 9))
        else denom)"

definition sign_change :: "int \<Rightarrow> int \<Rightarrow> bool" where
  "sign_change current_sample_value prev \<longleftrightarrow>
     (current_sample_value > 0 \<and> prev < 0) \<or> (current_sample_value < 0 \<and> prev > 0)"

definition detect_crossing :: "int \<Rightarrow> meter \<Rightarrow> meter \<times> bool" where
  "detect_crossing current_sample_value s0 =
    (let (s, is_zero_crossing) =
           (if sign_change current_sample_value (previous_sample s0) then
              let denom = interpolation_denom current_sample_value (previous_sample s0);
                  crossing_offset_ns =
                    real_of_int (- previous_sample s0) * nanoseconds_per_sample s0 / denom
              in (s0\<lparr>current_interval_ns := current_interval_ns s0 + crossing_offset_ns,
                      interval_remainder_ns := nanoseconds_per_sample s0 - crossing_offset_ns\<rparr>,
                  True)
            else
              (s0\<lparr>current_interval_ns := current_interval_ns s0 + nanoseconds_per_sample s0\<rparr>,
               False));
         (s, is_zero_crossing) =
           (if current_sample_value = 0 then (s\<lparr>interval_remainder_ns := 0\<rparr>, True)
            else (s, is_zero_crossing));
         s = s\<lparr>previous_sample := current_sample_value\<rparr>
     in (s, is_zero_crossing))"

subsection \<open>A crossing event\<close>

definition apply_weighting :: "int \<Rightarrow> real \<Rightarrow> meter \<Rightarrow> real \<times> meter" where
  "apply_weighting filter_type e s =
    (if filter_type = 0 then
       (let (v, b) = process_unweighted e (buf_unw s) in (v, s\<lparr>buf_unw := b\<rparr>))
     else if filter_type = 1 then
       (let (v, b) = process_DIN e (buf_din s) in (v, s\<lparr>buf_din := b\<rparr>))
     else if filter_type = 2 then
       (let (v, b) = process_wow e (buf_wow s) in (v, s\<lparr>buf_wow := b\<rparr>))
     else if filter_type = 3 then
       (let (v, b) = process_flutter e (buf_flutter s) in (v, s\<lparr>buf_flutter := b\<rparr>))
     else
       (let (v, b) = process_unweighted e (buf_unw s) in (v, s\<lparr>buf_unw := b\<rparr>)))"

definition quasi_peak_update :: "real \<Rightarrow> real \<Rightarrow> real" where
  "quasi_peak_update measurement_value qp =
    (if measurement_value > qp then qp + (measurement_value - qp) / 500
     else qp + (measurement_value - qp) / 6000)"

fun crossing_event ::
  "int \<Rightarrow> meter \<times> call_vars \<times> window_vars \<Rightarrow> meter \<times> call_vars \<times> window_vars" where
  "crossing_event filter_type (s, c, w) =
   (if is_first_buffer s \<noteq> 0 then
      (s\<lparr>valid_sample_count := 0, is_first_buffer := 0\<rparr>, c, w)
    else
      let timing_error_percent =
            (expected_half_period_ns s - current_interval_ns s) / expected_half_period_ns s;
          (timing_error_percent, s) = apply_weighting filter_type timing_error_percent s;
          measurement_value = \<bar>timing_error_percent\<bar> * 10000 / 85;
          s = s\<lparr>current_quasi_peak :=
                  quasi_peak_update measurement_value (current_quasi_peak s)\<rparr>;
          w = w\<lparr>max_quasi_peak := current_quasi_peak s\<rparr>;
          w = w\<lparr>sum_of_squares :=
                  sum_of_squares w + timing_error_percent * timing_error_percent\<rparr>;
          s = s\<lparr>valid_sample_count := valid_sample_count s + 1\<rparr>;
          s = s\<lparr>interval_sum_ns := interval_sum_ns s + current_interval_ns s\<rparr>;
          s = s\<lparr>current_interval_ns := interval_remainder_ns s\<rparr>;
          s = s\<lparr>average_interval_ns :=
                  interval_sum_ns s / real_of_int (valid_sample_count s)\<rparr>;
          s = s\<lparr>measured_frequency_hz := 1000000000 / average_interval_ns s / 2\<rparr>;
          c = c\<lparr>freq_sum_5sec := freq_sum_5sec c + measured_frequency_hz s\<rparr>;
          c = c\<lparr>freq_count_5sec := freq_count_5sec c + 1\<rparr>
      in (s, c, w))"

fun process_sample ::
  "int \<Rightarrow> int \<Rightarrow> meter \<times> call_vars \<times> window_vars \<Rightarrow> meter \<times> call_vars \<times> window_vars" where
  "process_sample filter_type raw (s, c, w) =
   (let sample = short_of_int raw;
        s = s\<lparr>filter_input := real_of_int sample\<rparr>;
        (out, buf) = process_2nd_order (filter_input s) (buf2nd_order s);
        s = s\<lparr>buf2nd_order := buf, filter_output := out\<rparr>;
        current_sample_value = int_of_double (filter_output s);
        (s, is_zero_crossing) = detect_crossing current_sample_value s
    in if is_zero_crossing then crossing_event filter_type (s, c, w) else (s, c, w))"

fun dsp_pass ::
  "int \<Rightarrow> int list \<Rightarrow> meter \<times> call_vars \<Rightarrow> meter \<times> call_vars \<times> window_vars" where
  "dsp_pass filter_type block (s, c) =
    (fold (process_sample filter_type) block
       (s, c, \<lparr>sum_of_squares = 0, max_quasi_peak = 0\<rparr>))"

subsection \<open>The end of a valid window\<close>

definition scan_max :: "real list \<Rightarrow> real" where
  \<comment> \<open>the loop over \<^verbatim>\<open>i < 50\<close> that keeps the largest slot, starting from \<open>0.0\<close>\<close>
  "scan_max arr = fold (\<lambda>i m. if arr ! i > m then arr ! i else m) [0..<50] 0"

definition scan_max_rms :: "xreal list \<Rightarrow> xreal" where
  \<comment> \<open>the same loop on the max-RMS ring\<close>
  "scan_max_rms arr = fold (\<lambda>i m. if xgt (arr ! i) m then arr ! i else m) [0..<50] (Finite 0)"

definition total_sum_of_squares :: "real list \<Rightarrow> real" where
  "total_sum_of_squares arr = fold (\<lambda>i t. t + arr ! i) [0..<10] 0"

definition next_peak_index :: "nat \<Rightarrow> nat" where
  \<comment> \<open>\<^verbatim>\<open>if (++peak_index_100ms == 50) peak_index_100ms = 0\<close>\<close>
  "next_peak_index i = (if i + 1 = 50 then 0 else i + 1)"

definition one_second_boundary :: "call_vars \<Rightarrow> meter \<Rightarrow> meter" where
  "one_second_boundary c s0 =
    (let total = total_sum_of_squares (buffer_rms_1sec_sums s0);
         s = s0\<lparr>max_rms_array := (max_rms_array s0)[peak_index_100ms s0 :=
                  rms_percent_of total (valid_sample_count s0)]\<rparr>;
         s = s\<lparr>result_rms_percent := scan_max_rms (max_rms_array s)\<rparr>;
         s = s\<lparr>result_quasi_peak := scan_max (peak_values_100ms s)\<rparr>;
         s = (if freq_count_5sec c > 0
              then s\<lparr>result_frequency_hz :=
                       freq_sum_5sec c / real_of_int (freq_count_5sec c)\<rparr>
              else s)
     in s\<lparr>valid_sample_count := 0, rms_1sec_buffer_index := 0, interval_sum_ns := 0\<rparr>)"

fun end_of_window :: "meter \<times> call_vars \<times> window_vars \<Rightarrow> meter" where
  "end_of_window (s0, c, w) =
   (let s = s0\<lparr>buffer_rms_1sec_sums :=
                 (buffer_rms_1sec_sums s0)[rms_1sec_buffer_index s0 := sum_of_squares w]\<rparr>;
        s = s\<lparr>peak_values_100ms :=
                 (peak_values_100ms s)[peak_index_100ms s := max_quasi_peak w]\<rparr>;
        s = s\<lparr>peak_index_100ms := next_peak_index (peak_index_100ms s)\<rparr>;
        s = s\<lparr>rms_1sec_buffer_index := rms_1sec_buffer_index s + 1\<rparr>
    in if rms_1sec_buffer_index s = 10 then one_second_boundary c s else s)"

subsection \<open>One window and the whole call\<close>

definition block_valid :: "meter \<Rightarrow> int \<Rightarrow> int \<Rightarrow> bool" where
  \<comment> \<open>the negation of the two \<^verbatim>\<open>continue\<close> tests\<close>
  "block_valid s max_amplitude zero_crossing_count \<longleftrightarrow>
     \<not> max_amplitude < 50 \<and>
     \<not> (zero_crossing_count < min_zero_crossings s \<or> zero_crossing_count > max_zero_crossings s)"

fun process_window :: "int \<Rightarrow> int list \<Rightarrow> meter \<times> call_vars \<Rightarrow> meter \<times> call_vars" where
  "process_window filter_type block (s0, c) =
   (let (max_amplitude, zero_crossing_count, prev_raw) = gate_pass block (previous_sample_raw s0);
        s = s0\<lparr>previous_sample_raw := prev_raw\<rparr>
    in if max_amplitude < 50 then (s, c)
       else if zero_crossing_count < min_zero_crossings s
               \<or> zero_crossing_count > max_zero_crossings s then (s, c)
       else let (s, c, w) = dsp_pass filter_type block (s, c)
            in (end_of_window (s, c, w), c))"

text \<open>
  The loop over the windows: \<open>n\<close> windows are left, \<open>samples\<close> is what the pointer
  \<^verbatim>\<open>samples\<close> still points at.
\<close>

fun windows_loop :: "nat \<Rightarrow> int \<Rightarrow> int list \<Rightarrow> meter \<times> call_vars \<Rightarrow> meter \<times> call_vars" where
  "windows_loop 0 filter_type samples sc = sc"
| "windows_loop (Suc n) filter_type samples sc =
     windows_loop n filter_type
       (drop (nat (samples_per_100ms (fst sc))) samples)
       (process_window filter_type (take (nat (samples_per_100ms (fst sc))) samples) sc)"

definition process_samples :: "int list \<Rightarrow> int \<Rightarrow> int \<Rightarrow> meter \<Rightarrow> int \<times> meter" where
  "process_samples samples num_samples filter_type s =
    (if num_samples < int32 (samples_per_100ms s * 100) then (- 1, s)
     else (0, fst (windows_loop 100 filter_type samples
                     (s, \<lparr>freq_sum_5sec = 0, freq_count_5sec = 0\<rparr>))))"

declare crossing_event.simps [simp del] process_sample.simps [simp del] dsp_pass.simps [simp del]
  end_of_window.simps [simp del] process_window.simps [simp del]

definition get_results :: "meter \<Rightarrow> real \<times> xreal \<times> real" where
  \<comment> \<open>\<open>(peak, rms, freq)\<close>\<close>
  "get_results s = (result_quasi_peak s, result_rms_percent s, result_frequency_hz s)"

subsection \<open>The state at program start, and small sessions\<close>

text \<open>
  The static initialisers of the module: everything is zero, except the two variables
  that are initialised for a 3150 Hz tone.
\<close>

definition initial_meter :: meter where
  "initial_meter = \<lparr>
     buf2nd_order = replicate 4 0,
     buf_din = replicate 8 0,
     buf_unw = replicate 8 0,
     buf_wow = replicate 8 0,
     buf_flutter = replicate 8 0,
     previous_sample = 0,
     current_interval_ns = 0,
     interval_remainder_ns = 0,
     nanoseconds_per_sample = 0,
     expected_half_period_ns = 0.5 * 10 ^ 9 / 3150,
     test_frequency_hz = 3150,
     min_zero_crossings = 0,
     max_zero_crossings = 0,
     samples_per_100ms = 0,
     filter_input = 0,
     filter_output = 0,
     is_first_buffer = 0,
     valid_sample_count = 0,
     interval_sum_ns = 0,
     average_interval_ns = 0,
     measured_frequency_hz = 0,
     rms_1sec_buffer_index = 0,
     buffer_rms_1sec_sums = replicate 10 0,
     peak_values_100ms = replicate 50 0,
     peak_index_100ms = 0,
     max_rms_array = replicate 50 (Finite 0),
     current_quasi_peak = 0,
     result_rms_percent = Finite 0,
     result_quasi_peak = 0,
     result_frequency_hz = 0,
     previous_sample_raw = 0\<rparr>"

definition call_start :: call_vars where
  \<comment> \<open>the locals of \<^verbatim>\<open>process_samples\<close> at its entry\<close>
  "call_start = \<lparr>freq_sum_5sec = 0, freq_count_5sec = 0\<rparr>"

definition window_start :: window_vars where
  \<comment> \<open>the locals of a window before its second pass\<close>
  "window_start = \<lparr>sum_of_squares = 0, max_quasi_peak = 0\<rparr>"

definition tiny_session :: meter where
  \<comment> \<open>10 samples per second and a 5 Hz tone: one sample per window, gate bounds 0 and 1\<close>
  "tiny_session = flutterMeter_init 10 5 initial_meter"

definition gated_session :: "meter \<Rightarrow> meter" where
  \<comment> \<open>10 samples per second and a 10 Hz tone: one sample per window, gate bounds 1 and 2\<close>
  "gated_session s = flutterMeter_init 10 10 s"

definition after_one_window :: "meter \<times> call_vars" where
  \<comment> \<open>a small session after a first window that holds the sample 50\<close>
  "after_one_window = process_window 0 [50] (tiny_session, call_start)"

definition after_two_windows :: "meter \<times> call_vars" where
  \<comment> \<open>and after a second window that holds the sample 50\<close>
  "after_two_windows = process_window 0 [50] after_one_window"

definition wide_session :: meter where
  \<comment> \<open>30 samples per second and a 15 Hz tone: three samples per window, gate bounds 2 and 3\<close>
  "wide_session = flutterMeter_init 30 15 initial_meter"

subsection \<open>Notions used to state the properties\<close>

definition window_blocks :: "nat \<Rightarrow> nat \<Rightarrow> int list \<Rightarrow> int list list" where
  \<comment> \<open>the first \<open>m\<close> consecutive blocks of \<open>n\<close> samples\<close>
  "window_blocks m n samples = map (\<lambda>k. take n (drop (k * n) samples)) [0..<m]"

definition sign_changes :: "int \<Rightarrow> int list \<Rightarrow> int" where
  \<comment> \<open>the adjacent pairs \<open>(prev, curr)\<close> of a block, led by \<open>prev\<close>, whose sign changes\<close>
  "sign_changes prev shorts =
     int (length (filter (\<lambda>(p, x). (x \<ge> 0 \<and> p < 0) \<or> (x < 0 \<and> p \<ge> 0))
                    (zip (prev # shorts) shorts)))"

definition window_valid :: "meter \<Rightarrow> int list \<Rightarrow> bool" where
  \<comment> \<open>the gate lets the block through\<close>
  "window_valid s block =
     (case gate_pass block (previous_sample_raw s) of
        (max_amplitude, zero_crossing_count, prev_raw) \<Rightarrow>
          block_valid s max_amplitude zero_crossing_count)"

definition after_gate :: "meter \<Rightarrow> int list \<Rightarrow> meter" where
  \<comment> \<open>the state after the first pass: only \<^verbatim>\<open>previous_sample_raw\<close> has moved\<close>
  "after_gate s block =
     s\<lparr>previous_sample_raw := snd (snd (gate_pass block (previous_sample_raw s)))\<rparr>"

definition isolated :: "int \<Rightarrow> meter \<Rightarrow> meter" where
  \<comment> \<open>the state after the isolator has taken a sample, before the crossing detector\<close>
  "isolated raw s =
     (let s1 = s\<lparr>filter_input := real_of_int (short_of_int raw)\<rparr>;
          r = process_2nd_order (filter_input s1) (buf2nd_order s1)
      in s1\<lparr>buf2nd_order := snd r, filter_output := fst r\<rparr>)"

definition sample_increment :: "int \<Rightarrow> meter \<Rightarrow> real" where
  \<comment> \<open>what the crossing detector adds to \<^verbatim>\<open>current_interval_ns\<close> for a sample\<close>
  "sample_increment raw s =
     (let s1 = isolated raw s; v = int_of_double (filter_output s1)
      in if sign_change v (previous_sample s1)
         then real_of_int (- previous_sample s1) * nanoseconds_per_sample s1
                / real_of_int (v - previous_sample s1)
         else nanoseconds_per_sample s1)"

fun elapsed_ns ::
  "int \<Rightarrow> int list \<Rightarrow> meter \<times> call_vars \<times> window_vars \<Rightarrow> real" where
  "elapsed_ns filter_type [] x = 0"
| "elapsed_ns filter_type (raw # raws) x =
     sample_increment raw (fst x) + elapsed_ns filter_type raws (process_sample filter_type raw x)"

definition emitted :: "meter \<times> call_vars \<times> window_vars \<Rightarrow> int" where
  \<comment> \<open>\<^verbatim>\<open>freq_count_5sec\<close> goes up by one at every emitted crossing and nowhere else\<close>
  "emitted x = freq_count_5sec (fst (snd x))"

definition whole_time_ns :: "meter \<Rightarrow> nat \<Rightarrow> real \<Rightarrow> real" where
  \<comment> \<open>the time from the first processed sample to a crossing that lies \<open>offset\<close>
      nanoseconds into the sample period that follows \<open>n\<close> whole ones\<close>
  "whole_time_ns s n offset = real n * nanoseconds_per_sample s + offset"


definition meter_wf :: "meter \<Rightarrow> bool" where
  \<comment> \<open>the rings have their declared sizes, the indices are inside, and the sums of squares,
      the peak values, the quasi-peak value and the count are not negative\<close>
  "meter_wf s \<longleftrightarrow>
     length (buffer_rms_1sec_sums s) = 10 \<and> length (peak_values_100ms s) = 50 \<and>
     length (max_rms_array s) = 50 \<and>
     rms_1sec_buffer_index s < 10 \<and> peak_index_100ms s < 50 \<and>
     list_all (\<lambda>x. 0 \<le> x) (buffer_rms_1sec_sums s) \<and>
     list_all (\<lambda>x. 0 \<le> x) (peak_values_100ms s) \<and>
     0 \<le> current_quasi_peak s \<and> 0 \<le> valid_sample_count s"

definition dsp_frame :: "meter \<Rightarrow> meter \<Rightarrow> bool" where
  \<comment> \<open>what the second pass never writes: the configuration, the rings and the results\<close>
  "dsp_frame s s' \<longleftrightarrow>
     nanoseconds_per_sample s' = nanoseconds_per_sample s \<and>
     expected_half_period_ns s' = expected_half_period_ns s \<and>
     test_frequency_hz s' = test_frequency_hz s \<and>
     min_zero_crossings s' = min_zero_crossings s \<and>
     max_zero_crossings s' = max_zero_crossings s \<and>
     samples_per_100ms s' = samples_per_100ms s \<and>
     rms_1sec_buffer_index s' = rms_1sec_buffer_index s \<and>
     buffer_rms_1sec_sums s' = buffer_rms_1sec_sums s \<and>
     peak_values_100ms s' = peak_values_100ms s \<and>
     peak_index_100ms s' = peak_index_100ms s \<and>
     max_rms_array s' = max_rms_array s \<and>
     result_rms_percent s' = result_rms_percent s \<and>
     result_quasi_peak s' = result_quasi_peak s \<and>
     result_frequency_hz s' = result_frequency_hz s \<and>
     previous_sample_raw s' = previous_sample_raw s"

definition dsp_nonneg :: "meter \<times> call_vars \<times> window_vars \<Rightarrow> bool" where
  \<comment> \<open>the quantities of the second pass that are sums of squares, counts or magnitudes\<close>
  "dsp_nonneg x \<longleftrightarrow>
     0 \<le> current_quasi_peak (fst x) \<and> 0 \<le> valid_sample_count (fst x) \<and>
     0 \<le> sum_of_squares (snd (snd x)) \<and> 0 \<le> max_quasi_peak (snd (snd x))"

definition stale_meter :: meter where
  \<comment> \<open>a session that has processed ten seconds of the sample \<open>-1\<close>\<close>
  "stale_meter = snd (process_samples (replicate 100 (- 1)) 100 0 (gated_session initial_meter))"

definition gated :: "meter \<Rightarrow> bool" where
  \<comment> \<open>a well-formed state of a \<open>gated_session\<close> whose last raw sample was negative\<close>
  "gated s \<longleftrightarrow>
     min_zero_crossings s = 1 \<and> max_zero_crossings s = 2 \<and> samples_per_100ms s = 1 \<and>
     previous_sample_raw s < 0 \<and> meter_wf s"

definition tone_pair :: "int \<Rightarrow> meter \<times> call_vars \<Rightarrow> meter \<times> call_vars" where
  \<comment> \<open>two windows of one sample each: 100, then -100\<close>
  "tone_pair filter_type x = process_window filter_type [- 100] (process_window filter_type [100] x)"

definition tone_samples :: "int list" where
  \<comment> \<open>ten times the samples 100, -100, then silence: 100 samples\<close>
  "tone_samples = concat (replicate 10 [100, - 100]) @ replicate 80 0"

definition used_meter :: meter where
  \<comment> \<open>a small session after a call whose first two windows emit one crossing\<close>
  "used_meter = snd (process_samples ([50, 50] @ replicate 98 0) 100 0 tiny_session)"


section \<open>Properties\<close>

subsection \<open>Conversions\<close>

lemma c_div_pos: "0 \<le> a \<Longrightarrow> 0 < b \<Longrightarrow> c_div a b = a div b"
  by (cases "a = 0") (simp_all add: c_div_def)

lemma int_of_double_nonneg: "0 \<le> x \<Longrightarrow> x < 2147483648 \<Longrightarrow> int_of_double x = \<lfloor>x\<rfloor>"
  by (simp add: int_of_double_def)

lemma int32_in_range: "- 2147483648 \<le> x \<Longrightarrow> x \<le> 2147483647 \<Longrightarrow> int32 x = x"
  by (simp add: int32_def sint_sbintrunc' signed_take_bit_int_eq_self)

lemma int32_le_nonneg:
  assumes "0 \<le> x"
  shows "int32 x \<le> x"
proof (cases "x \<le> 2147483647")
  case True
  then show ?thesis using assms by (simp add: int32_in_range)
next
  case False
  have "sint (word_of_int x :: 32 word) < 2 ^ (LENGTH(32) - 1)"
    by (rule sint_lt)
  then show ?thesis using False by (simp add: int32_def)
qed

text \<open>
  For a window length that is not negative, a count of at least \<open>100 * samples_per_100ms\<close>
  passes the test of \<^verbatim>\<open>process_samples\<close>, whether or not the product fits in an \<^verbatim>\<open>int\<close>.
\<close>

lemma count_test_passes:
  assumes "0 \<le> samples_per_100ms s" and "samples_per_100ms s * 100 \<le> num_samples"
  shows "int32 (samples_per_100ms s * 100) \<le> num_samples"
proof -
  have "int32 (samples_per_100ms s * 100) \<le> samples_per_100ms s * 100"
    using assms(1) by (intro int32_le_nonneg) simp
  then show ?thesis using assms(2) by simp
qed

lemma replicate_num: "replicate (numeral n) x = x # replicate (pred_numeral n) x"
  by (simp add: numeral_eq_Suc)

text \<open>
  The equations that evaluate the model on a concrete input. They are used together with
  the weak congruence rule of \<open>let\<close>, so that a bound value is computed before the
  body is looked at.
\<close>

lemmas eval_defs = flutterMeter_init_def reset_filters_def initial_meter_def call_start_def
  window_start_def tiny_session_def gated_session_def wide_session_def
  process_window.simps gate_pass_def dsp_pass.simps process_sample.simps detect_crossing_def
  crossing_event.simps apply_weighting_def end_of_window.simps one_second_boundary_def
  next_peak_index_def quasi_peak_update_def process_2nd_order_def process_unweighted_def
  process_DIN_def process_wow_def process_flutter_def memmove_left_def int_of_double_def
  short_of_int_def int32_def c_div_def sign_change_def interpolation_denom_def block_valid_def
  replicate_num Let_def

subsection \<open>Initialisation\<close>

text \<open>
  C1, as the code has it. \<^verbatim>\<open>test_frequency_hz\<close> is a 32-bit \<^verbatim>\<open>int\<close>: a test frequency
  below \<open>2^31\<close> is truncated when it is stored, and \<^verbatim>\<open>test_frequency_hz / 5\<close> is an integer
  division, done before the product with 0.95 or 1.05 is formed. The gate bounds are
  therefore the floors of \<open>(\<lfloor>test_frequency\<rfloor> div 5) * 0.95\<close> and of
  \<open>(\<lfloor>test_frequency\<rfloor> div 5) * 1.05\<close>. The window length is \<open>sample_rate div 10\<close>, and the
  expected half period is computed from the test frequency as it was passed, not from the
  truncated one.
\<close>

theorem init_config:
  assumes "0 < sample_rate" and "sample_rate \<le> 2147483647"
    and "0 < test_frequency" and "test_frequency < 2147483648"
  shows "min_zero_crossings (flutterMeter_init sample_rate test_frequency s)
           = \<lfloor>real_of_int (\<lfloor>test_frequency\<rfloor> div 5) * 0.95\<rfloor>
       \<and> max_zero_crossings (flutterMeter_init sample_rate test_frequency s)
           = \<lfloor>real_of_int (\<lfloor>test_frequency\<rfloor> div 5) * 1.05\<rfloor>
       \<and> test_frequency_hz (flutterMeter_init sample_rate test_frequency s) = \<lfloor>test_frequency\<rfloor>
       \<and> samples_per_100ms (flutterMeter_init sample_rate test_frequency s) = sample_rate div 10
       \<and> nanoseconds_per_sample (flutterMeter_init sample_rate test_frequency s)
           = 10 ^ 9 / real_of_int sample_rate
       \<and> expected_half_period_ns (flutterMeter_init sample_rate test_frequency s)
           = 0.5 * 10 ^ 9 / test_frequency"
proof -
  have tf: "int_of_double test_frequency = \<lfloor>test_frequency\<rfloor>" and nn: "0 \<le> \<lfloor>test_frequency\<rfloor>"
    using assms(3,4) by (simp_all add: int_of_double_nonneg)
  have d5: "c_div \<lfloor>test_frequency\<rfloor> 5 = \<lfloor>test_frequency\<rfloor> div 5"
    using nn by (simp add: c_div_pos)
  have q: "0 \<le> \<lfloor>test_frequency\<rfloor> div 5"
    using nn by (simp add: pos_imp_zdiv_nonneg_iff)
  have "\<lfloor>test_frequency\<rfloor> \<le> 2147483647"
    using assms(4) by (simp add: floor_le_iff)
  then have "\<lfloor>test_frequency\<rfloor> div 5 \<le> 429496729"
    by linarith
  then have qb: "real_of_int (\<lfloor>test_frequency\<rfloor> div 5) \<le> 429496729"
    by (metis of_int_le_iff of_int_numeral)
  have b95: "real_of_int (\<lfloor>test_frequency\<rfloor> div 5) * 0.95 < 2147483648"
    and b105: "real_of_int (\<lfloor>test_frequency\<rfloor> div 5) * 1.05 < 2147483648"
    using qb by simp_all
  have d10: "c_div sample_rate 10 = sample_rate div 10"
    using assms(1) by (simp add: c_div_pos)
  show ?thesis
    using q b95 b105
    by (simp add: flutterMeter_init_def reset_filters_def Let_def tf d5 d10 int_of_double_nonneg)
qed

theorem init_config_witness:
  "min_zero_crossings (flutterMeter_init 48000 3150 initial_meter) = 598
 \<and> max_zero_crossings (flutterMeter_init 48000 3150 initial_meter) = 661
 \<and> test_frequency_hz (flutterMeter_init 48000 3150 initial_meter) = 3150
 \<and> samples_per_100ms (flutterMeter_init 48000 3150 initial_meter) = 4800
 \<and> nanoseconds_per_sample (flutterMeter_init 48000 3150 initial_meter) = 62500 / 3
 \<and> expected_half_period_ns (flutterMeter_init 48000 3150 initial_meter) = 10 ^ 7 / 63"
  using init_config [of 48000 3150 initial_meter] by simp

text \<open>
  C1 as it is stated fails: for a 3159 Hz tone the real product \<open>3159 / 5 * 0.95\<close> is
  600.21, but the code computes \<open>631 * 0.95 = 599.45\<close> and stores 599. A test frequency
  of \<open>10^10\<close> Hz is out of the range of \<^verbatim>\<open>test_frequency_hz\<close>: what is stored is \<open>INT_MIN\<close>,
  and the lower gate bound is negative.
\<close>

theorem init_min_crossings_counterexample:
  "min_zero_crossings (flutterMeter_init 48000 3159 initial_meter) = 599
 \<and> \<lfloor>(3159 :: real) / 5 * 0.95\<rfloor> = 600
 \<and> test_frequency_hz (flutterMeter_init 48000 10000000000 initial_meter) = - 2147483648
 \<and> min_zero_crossings (flutterMeter_init 48000 10000000000 initial_meter) = - 408021892"
  by (simp add: flutterMeter_init_def reset_filters_def Let_def int_of_double_def c_div_def)

subsection \<open>The configuration is not touched by processing\<close>

lemma spm_detect_crossing [simp]:
  "samples_per_100ms (fst (detect_crossing v s)) = samples_per_100ms s"
  by (simp add: detect_crossing_def Let_def split_def)

lemma spm_apply_weighting [simp]:
  "samples_per_100ms (snd (apply_weighting ft e s)) = samples_per_100ms s"
  by (simp add: apply_weighting_def Let_def split_def)

lemma spm_crossing_event [simp]:
  "samples_per_100ms (fst (crossing_event ft x)) = samples_per_100ms (fst x)"
  by (cases x) (simp add: crossing_event.simps Let_def split_def)

lemma spm_process_sample [simp]:
  "samples_per_100ms (fst (process_sample ft raw x)) = samples_per_100ms (fst x)"
  by (cases x) (simp add: process_sample.simps Let_def split_def)

lemma spm_fold_process_sample [simp]:
  "samples_per_100ms (fst (fold (process_sample ft) block x)) = samples_per_100ms (fst x)"
  by (induction block arbitrary: x) simp_all

lemma spm_end_of_window [simp]:
  "samples_per_100ms (end_of_window x) = samples_per_100ms (fst x)"
  by (cases x) (simp add: end_of_window.simps one_second_boundary_def Let_def split_def)

lemma spm_process_window [simp]:
  "samples_per_100ms (fst (process_window ft block sc)) = samples_per_100ms (fst sc)"
  by (cases sc) (simp add: process_window.simps dsp_pass.simps Let_def split_def)

subsection \<open>The window loop\<close>

lemma window_blocks_Suc:
  "window_blocks (Suc m) n samples = take n samples # window_blocks m n (drop n samples)"
proof -
  have "[0..<Suc m] = 0 # map Suc [0..<m]"
    by (simp add: upt_conv_Cons map_Suc_upt del: upt_Suc)
  then show ?thesis
    by (simp add: window_blocks_def comp_def add.commute del: upt_Suc)
qed

lemma windows_loop_fold:
  "windows_loop m ft samples sc =
     fold (process_window ft) (window_blocks m (nat (samples_per_100ms (fst sc))) samples) sc"
proof (induction m arbitrary: samples sc)
  case 0
  show ?case by (simp add: window_blocks_def)
next
  case (Suc m)
  show ?case by (simp add: Suc window_blocks_Suc)
qed

lemma window_blocks_length: "length (window_blocks m n samples) = m"
  by (simp add: window_blocks_def)

lemma window_blocks_block_length:
  assumes "m * n \<le> length samples" and "b \<in> set (window_blocks m n samples)"
  shows "length b = n"
proof -
  from assms(2) obtain k where k: "k < m" and b: "b = take n (drop (k * n) samples)"
    by (auto simp: window_blocks_def)
  have "Suc k * n \<le> m * n"
    using k by (simp add: Suc_leI mult_le_mono1 del: mult_Suc)
  with assms(1) have "k * n + n \<le> length samples" by simp
  then show ?thesis by (simp add: b)
qed

lemma window_blocks_concat:
  "concat (window_blocks m n samples) = take (m * n) samples"
proof (induction m arbitrary: samples)
  case 0
  show ?case by (simp add: window_blocks_def)
next
  case (Suc m)
  have "take n samples @ take (m * n) (drop n samples) = take (n + m * n) samples"
    by (simp add: take_add)
  then show ?case by (simp add: window_blocks_Suc Suc)
qed

lemma window_blocks_append:
  assumes "m * n \<le> length samples"
  shows "window_blocks m n (samples @ extra) = window_blocks m n samples"
proof -
  have "take n (drop (k * n) (samples @ extra)) = take n (drop (k * n) samples)" if "k < m" for k
  proof -
    have "Suc k * n \<le> m * n"
      using that by (simp add: Suc_leI mult_le_mono1 del: mult_Suc)
    with assms have "k * n + n \<le> length samples" by simp
    then show ?thesis by simp
  qed
  then show ?thesis by (simp add: window_blocks_def)
qed

lemma enough_samples:
  assumes "samples_per_100ms s * 100 \<le> num_samples" and "num_samples \<le> int (length samples)"
  shows "100 * nat (samples_per_100ms s) \<le> length samples"
  using assms by (cases "0 \<le> samples_per_100ms s") (simp_all add: nat_le_iff)

text \<open>
  Where the product \<^verbatim>\<open>samples_per_100ms * 100\<close> is a 32-bit \<^verbatim>\<open>int\<close>, the count check does
  what the function's comment says. With fewer than \<open>100 * samples_per_100ms\<close> samples
  announced, the call returns \<open>-1\<close> and the state it returns is the state it was given.
  Otherwise, on an array that holds the announced samples, it returns \<open>0\<close> and its state
  is that of running \<open>process_window\<close> over exactly 100 blocks, each of
  \<open>samples_per_100ms\<close> samples, which together are the first \<open>100 * samples_per_100ms\<close>
  samples; whatever follows them in the array has no effect.
\<close>

lemma process_samples_sample_count:
  assumes lo: "- 2147483648 \<le> samples_per_100ms s * 100"
    and hi: "samples_per_100ms s * 100 \<le> 2147483647"
  shows "(num_samples < samples_per_100ms s * 100 \<longrightarrow>
      process_samples samples num_samples ft s = (- 1, s))
 \<and> (samples_per_100ms s * 100 \<le> num_samples \<and> num_samples \<le> int (length samples) \<longrightarrow>
      process_samples samples num_samples ft s =
        (0, fst (fold (process_window ft)
                   (window_blocks 100 (nat (samples_per_100ms s)) samples) (s, call_start)))
    \<and> length (window_blocks 100 (nat (samples_per_100ms s)) samples) = 100
    \<and> (\<forall>b \<in> set (window_blocks 100 (nat (samples_per_100ms s)) samples).
          int (length b) = max 0 (samples_per_100ms s))
    \<and> concat (window_blocks 100 (nat (samples_per_100ms s)) samples)
         = take (100 * nat (samples_per_100ms s)) samples
    \<and> process_samples (samples @ extra) (num_samples + int (length extra)) ft s
         = process_samples samples num_samples ft s)"
proof (intro conjI impI)
  note w = int32_in_range [OF lo hi]
  assume "num_samples < samples_per_100ms s * 100"
  then show "process_samples samples num_samples ft s = (- 1, s)"
    by (simp add: process_samples_def w)
next
  note w = int32_in_range [OF lo hi]
  assume a: "samples_per_100ms s * 100 \<le> num_samples \<and> num_samples \<le> int (length samples)"
  then show "process_samples samples num_samples ft s =
        (0, fst (fold (process_window ft)
                   (window_blocks 100 (nat (samples_per_100ms s)) samples) (s, call_start)))"
    by (simp add: process_samples_def w windows_loop_fold call_start_def)
next
  show "length (window_blocks 100 (nat (samples_per_100ms s)) samples) = 100"
    by (rule window_blocks_length)
next
  assume a: "samples_per_100ms s * 100 \<le> num_samples \<and> num_samples \<le> int (length samples)"
  then have le: "100 * nat (samples_per_100ms s) \<le> length samples"
    using enough_samples by blast
  show "\<forall>b \<in> set (window_blocks 100 (nat (samples_per_100ms s)) samples).
          int (length b) = max 0 (samples_per_100ms s)"
  proof
    fix b assume "b \<in> set (window_blocks 100 (nat (samples_per_100ms s)) samples)"
    then have "length b = nat (samples_per_100ms s)"
      using le window_blocks_block_length by blast
    then show "int (length b) = max 0 (samples_per_100ms s)" by simp
  qed
next
  show "concat (window_blocks 100 (nat (samples_per_100ms s)) samples)
         = take (100 * nat (samples_per_100ms s)) samples"
    by (rule window_blocks_concat)
next
  note w = int32_in_range [OF lo hi]
  assume a: "samples_per_100ms s * 100 \<le> num_samples \<and> num_samples \<le> int (length samples)"
  then have le: "100 * nat (samples_per_100ms s) \<le> length samples"
    using enough_samples by blast
  have "window_blocks 100 (nat (samples_per_100ms s)) (samples @ extra)
          = window_blocks 100 (nat (samples_per_100ms s)) samples"
    using le by (rule window_blocks_append)
  then show "process_samples (samples @ extra) (num_samples + int (length extra)) ft s
         = process_samples samples num_samples ft s"
    using a by (simp add: process_samples_def w windows_loop_fold)
qed

text \<open>
  C2, where the code departs from it. The product \<^verbatim>\<open>samples_per_100ms * 100\<close> is computed
  in a 32-bit \<^verbatim>\<open>int\<close>. After \<^verbatim>\<open>flutterMeter_init(214748370, 3150)\<close> a window has 21474837
  samples, 100 windows need 2147483700 samples, and the product wraps around to
  \<open>-2147483596\<close>: a call that announces 5 samples is not turned away with \<open>-1\<close>, as the
  comment of the function says it is, but goes on to its 100 windows and returns \<open>0\<close>.
\<close>

theorem process_samples_count_overflow:
  "samples_per_100ms (flutterMeter_init 214748370 3150 initial_meter) = 21474837
 \<and> 5 < samples_per_100ms (flutterMeter_init 214748370 3150 initial_meter) * 100
 \<and> int32 (samples_per_100ms (flutterMeter_init 214748370 3150 initial_meter) * 100)
     = - 2147483596
 \<and> fst (process_samples [0, 0, 0, 0, 0] 5 0 (flutterMeter_init 214748370 3150 initial_meter))
     = 0"
proof -
  have spm: "samples_per_100ms (flutterMeter_init 214748370 3150 initial_meter) = 21474837"
    by (simp add: flutterMeter_init_def reset_filters_def Let_def c_div_def)
  have w: "int32 (21474837 * 100) = - 2147483596"
    by (simp add: int32_def)
  show ?thesis
    unfolding process_samples_def spm w by simp
qed

lemma tiny_session_config:
  "samples_per_100ms tiny_session = 1" "min_zero_crossings tiny_session = 0"
  "max_zero_crossings tiny_session = 1" "nanoseconds_per_sample tiny_session = 100000000"
  "expected_half_period_ns tiny_session = 100000000" "previous_sample_raw tiny_session = 0"
  by (simp_all add: eval_defs cong: let_weak_cong)

lemma process_samples_sample_count_example:
  "process_samples (replicate 99 50) 99 1 tiny_session = (- 1, tiny_session)
 \<and> process_samples (replicate 100 50) 100 1 tiny_session =
      (0, fst (fold (process_window 1) (window_blocks 100 1 (replicate 100 50))
                 (tiny_session, call_start)))
 \<and> process_samples (replicate 100 50 @ [7, 7]) 102 1 tiny_session
      = process_samples (replicate 100 50) 100 1 tiny_session"
  using process_samples_sample_count [of tiny_session 99 "replicate 99 50" 1 "[]"]
        process_samples_sample_count [of tiny_session 100 "replicate 100 50" 1 "[7, 7]"]
  by (simp add: tiny_session_config)

subsection \<open>The gate\<close>

lemma fold_gate_step:
  "fold gate_step block (m, z, p) =
     (fold max (map short_of_int block) m,
      z + sign_changes p (map short_of_int block),
      last (p # map short_of_int block))"
proof (induction block arbitrary: m z p)
  case Nil
  show ?case by (simp add: sign_changes_def)
next
  case (Cons x xs)
  show ?case
    by (simp add: Cons Let_def sign_changes_def max_def)
qed

lemma gate_pass_eq:
  "gate_pass block p =
     (Max (insert 0 (short_of_int ` set block)),
      sign_changes p (map short_of_int block),
      (if block = [] then p else short_of_int (last block)))"
proof -
  have "fold max (map short_of_int block) 0 = Max (set (0 # map short_of_int block))"
    by (simp only: Max.set_eq_fold)
  then show ?thesis
    by (simp add: gate_pass_def fold_gate_step last_map)
qed

lemma process_window_cases:
  "process_window ft block (s, c) =
     (if window_valid s block
      then (end_of_window (dsp_pass ft block (after_gate s block, c)),
            fst (snd (dsp_pass ft block (after_gate s block, c))))
      else (after_gate s block, c))"
proof -
  obtain m z p where g: "gate_pass block (previous_sample_raw s) = (m, z, p)"
    by (cases "gate_pass block (previous_sample_raw s)")
  show ?thesis
    by (auto simp add: process_window.simps window_valid_def after_gate_def block_valid_def g
          Let_def split_def)
qed

text \<open>
  C3. The first pass computes \<open>max_amplitude\<close> as the largest of 0 and the samples of the
  block (read as signed 16-bit values, so a block without a positive sample has
  \<open>max_amplitude = 0\<close>), counts the sign changes, and leaves the last sample in
  \<^verbatim>\<open>previous_sample_raw\<close>. The second pass and the end of the window run exactly when
  \<open>50 \<le> max_amplitude\<close> and the count is within the two bounds; otherwise the state
  returned is the state given with \<^verbatim>\<open>previous_sample_raw\<close> updated and nothing else
  changed, and the locals of the call are unchanged.
\<close>

theorem gate_decides_dsp_pass:
  "process_window ft block (s, c) =
    (let max_amplitude = Max (insert 0 (short_of_int ` set block));
         zero_crossing_count = sign_changes (previous_sample_raw s) (map short_of_int block);
         s1 = s\<lparr>previous_sample_raw :=
                  (if block = [] then previous_sample_raw s else short_of_int (last block))\<rparr>
     in if 50 \<le> max_amplitude \<and> min_zero_crossings s \<le> zero_crossing_count
            \<and> zero_crossing_count \<le> max_zero_crossings s
        then (end_of_window (dsp_pass ft block (s1, c)), fst (snd (dsp_pass ft block (s1, c))))
        else (s1, c))"
proof -
  obtain m z p where g: "gate_pass block (previous_sample_raw s) = (m, z, p)"
    by (cases "gate_pass block (previous_sample_raw s)")
  have m: "Max (insert 0 (short_of_int ` set block)) = m"
    and z: "sign_changes (previous_sample_raw s) (map short_of_int block) = z"
    and p: "(if block = [] then previous_sample_raw s else short_of_int (last block)) = p"
    using g by (simp_all only: gate_pass_eq prod.inject)
  show ?thesis
    unfolding m z p by (auto simp add: process_window.simps g Let_def split_def)
qed

theorem gate_decides_dsp_pass_witness:
  "process_window 1 [- 20000] (tiny_session, call_start)
     = (tiny_session\<lparr>previous_sample_raw := - 20000\<rparr>, call_start)
 \<and> process_window 1 [50] (tiny_session, call_start)
     = (end_of_window (dsp_pass 1 [50] (tiny_session\<lparr>previous_sample_raw := 50\<rparr>, call_start)),
        fst (snd (dsp_pass 1 [50] (tiny_session\<lparr>previous_sample_raw := 50\<rparr>, call_start))))"
  using gate_decides_dsp_pass [of 1 "[- 20000]" tiny_session call_start]
        gate_decides_dsp_pass [of 1 "[50]" tiny_session call_start]
  by (simp add: tiny_session_config sign_changes_def short_of_int_def Let_def)

subsection \<open>The crossing detector\<close>

lemma sign_change_denom:
  assumes "sign_change v p"
  shows "2 \<le> \<bar>v - p\<bar>" and "interpolation_denom v p = real_of_int (v - p)"
proof -
  show a: "2 \<le> \<bar>v - p\<bar>"
    using assms by (auto simp: sign_change_def)
  then have "2 \<le> \<bar>real_of_int (v - p)\<bar>"
    by (metis of_int_abs of_int_le_iff of_int_numeral)
  then have "\<not> \<bar>real_of_int (v - p)\<bar> < 1 / 10 ^ 9" by simp
  then show "interpolation_denom v p = real_of_int (v - p)"
    by (simp add: interpolation_denom_def Let_def)
qed

lemma detect_crossing_sign_change:
  assumes "sign_change v (previous_sample s)"
  shows "detect_crossing v s =
           (s\<lparr>current_interval_ns := current_interval_ns s
                  + real_of_int (- previous_sample s) * nanoseconds_per_sample s
                      / real_of_int (v - previous_sample s),
               interval_remainder_ns := nanoseconds_per_sample s
                  - real_of_int (- previous_sample s) * nanoseconds_per_sample s
                      / real_of_int (v - previous_sample s),
               previous_sample := v\<rparr>, True)"
proof -
  have "v \<noteq> 0" using assms by (auto simp: sign_change_def)
  then show ?thesis
    using assms by (simp add: detect_crossing_def Let_def sign_change_denom(2))
qed

lemma detect_crossing_zero:
  "detect_crossing 0 s =
     (s\<lparr>current_interval_ns := current_interval_ns s + nanoseconds_per_sample s,
         interval_remainder_ns := 0,
         previous_sample := 0\<rparr>, True)"
  by (simp add: detect_crossing_def Let_def sign_change_def)

lemma detect_crossing_other:
  assumes "\<not> sign_change v (previous_sample s)" and "v \<noteq> 0"
  shows "detect_crossing v s =
     (s\<lparr>current_interval_ns := current_interval_ns s + nanoseconds_per_sample s,
         previous_sample := v\<rparr>, False)"
  using assms by (simp add: detect_crossing_def Let_def)

lemma process_sample_eq:
  "process_sample ft raw (s, c, w) =
     (let d = detect_crossing (int_of_double (filter_output (isolated raw s))) (isolated raw s)
      in if snd d then crossing_event ft (fst d, c, w) else (fst d, c, w))"
  by (simp add: process_sample.simps isolated_def Let_def split_def)

text \<open>
  C4. A sample of a valid block goes through the isolator, its output is truncated, and the
  detector is called with that value \<open>v\<close>. If \<open>v\<close> and \<^verbatim>\<open>previous_sample\<close> have strictly
  opposite signs, the interval grows by
  \<open>crossing_offset_ns = - previous * nanoseconds_per_sample / (v - previous)\<close>, the remainder
  becomes \<open>nanoseconds_per_sample - crossing_offset_ns\<close> and a crossing is marked. In every
  other case the interval grows by exactly \<open>nanoseconds_per_sample\<close>. Whenever \<open>v = 0\<close> the
  remainder is set to 0 and a crossing is marked.
\<close>

theorem detect_crossing_cases:
  "process_sample ft raw (s, c, w) =
     (let d = detect_crossing (int_of_double (filter_output (isolated raw s))) (isolated raw s)
      in if snd d then crossing_event ft (fst d, c, w) else (fst d, c, w))
 \<and> (sign_change v (previous_sample s) \<longrightarrow>
      detect_crossing v s =
        (let crossing_offset_ns =
               real_of_int (- previous_sample s) * nanoseconds_per_sample s
                 / real_of_int (v - previous_sample s)
         in (s\<lparr>current_interval_ns := current_interval_ns s + crossing_offset_ns,
                interval_remainder_ns := nanoseconds_per_sample s - crossing_offset_ns,
                previous_sample := v\<rparr>, True)))
 \<and> (\<not> sign_change v (previous_sample s) \<and> v \<noteq> 0 \<longrightarrow>
      detect_crossing v s =
        (s\<lparr>current_interval_ns := current_interval_ns s + nanoseconds_per_sample s,
            previous_sample := v\<rparr>, False))
 \<and> (v = 0 \<longrightarrow>
      detect_crossing v s =
        (s\<lparr>current_interval_ns := current_interval_ns s + nanoseconds_per_sample s,
            interval_remainder_ns := 0,
            previous_sample := v\<rparr>, True))"
  using process_sample_eq [of ft raw s c w] detect_crossing_zero [of s]
  by (simp add: detect_crossing_sign_change detect_crossing_other Let_def)

theorem detect_crossing_cases_witness:
  "detect_crossing 5 (tiny_session\<lparr>previous_sample := - 3\<rparr>) =
     (tiny_session\<lparr>previous_sample := - 3, current_interval_ns := 37500000,
                    interval_remainder_ns := 62500000, previous_sample := 5\<rparr>, True)
 \<and> detect_crossing 5 (tiny_session\<lparr>previous_sample := 3\<rparr>) =
     (tiny_session\<lparr>previous_sample := 3, current_interval_ns := 100000000,
                    previous_sample := 5\<rparr>, False)
 \<and> detect_crossing 0 (tiny_session\<lparr>previous_sample := 3\<rparr>) =
     (tiny_session\<lparr>previous_sample := 3, current_interval_ns := 100000000,
                    interval_remainder_ns := 0, previous_sample := 0\<rparr>, True)"
proof -
  have cur: "current_interval_ns tiny_session = 0"
    by (simp add: eval_defs cong: let_weak_cong)
  show ?thesis
    using detect_crossing_cases [of 1 0 "tiny_session\<lparr>previous_sample := - 3\<rparr>"
                                    call_start window_start 5]
          detect_crossing_cases [of 1 0 "tiny_session\<lparr>previous_sample := 3\<rparr>"
                                    call_start window_start 5]
          detect_crossing_cases [of 1 0 "tiny_session\<lparr>previous_sample := 3\<rparr>"
                                    call_start window_start 0]
    by (simp add: tiny_session_config cur sign_change_def Let_def)
qed

text \<open>
  C10. Where the signs are strictly opposite, the two integers differ by at least 2, so the
  test \<^verbatim>\<open>fabs(denom) < 1e-9\<close> fails, the denominator used is \<open>v - previous\<close> itself, and it
  is not zero.
\<close>

theorem interpolation_denominator_safe:
  assumes "sign_change current_sample_value prev"
  shows "2 \<le> \<bar>current_sample_value - prev\<bar>
       \<and> \<not> \<bar>real_of_int (current_sample_value - prev)\<bar> < 1 / 10 ^ 9
       \<and> interpolation_denom current_sample_value prev = real_of_int (current_sample_value - prev)
       \<and> interpolation_denom current_sample_value prev \<noteq> 0"
proof -
  have a: "2 \<le> \<bar>current_sample_value - prev\<bar>"
    by (rule sign_change_denom(1) [OF assms])
  then have b: "2 \<le> \<bar>real_of_int (current_sample_value - prev)\<bar>"
    by (metis of_int_abs of_int_le_iff of_int_numeral)
  have c: "interpolation_denom current_sample_value prev = real_of_int (current_sample_value - prev)"
    by (rule sign_change_denom(2) [OF assms])
  from a b c show ?thesis by auto
qed

theorem interpolation_denominator_safe_witness:
  "sign_change 1 (- 1) \<and> 2 \<le> \<bar>(1::int) - (- 1)\<bar> \<and> interpolation_denom 1 (- 1) = 2"
  using interpolation_denominator_safe [of 1 "- 1"] by (simp add: sign_change_def)

subsection \<open>What the second pass leaves alone\<close>

lemma dsp_frame_refl: "dsp_frame s s"
  by (simp add: dsp_frame_def)

lemma dsp_frame_trans: "dsp_frame s s' \<Longrightarrow> dsp_frame s' s'' \<Longrightarrow> dsp_frame s s''"
  by (simp add: dsp_frame_def)

lemma dsp_frame_detect_crossing: "dsp_frame s (fst (detect_crossing v s))"
  by (simp add: dsp_frame_def detect_crossing_def Let_def split_def)

lemma dsp_frame_apply_weighting: "dsp_frame s (snd (apply_weighting ft e s))"
  by (simp add: dsp_frame_def apply_weighting_def Let_def split_def)

lemma dsp_frame_crossing_event: "dsp_frame (fst x) (fst (crossing_event ft x))"
proof (cases x)
  case (fields s c w)
  have "dsp_frame s (snd (apply_weighting ft e s))" for e
    by (rule dsp_frame_apply_weighting)
  then show ?thesis
    by (simp add: fields crossing_event.simps Let_def split_def dsp_frame_def)
qed

lemma dsp_frame_isolated: "dsp_frame s (isolated raw s)"
  by (simp add: dsp_frame_def isolated_def Let_def)

lemma dsp_frame_process_sample: "dsp_frame (fst x) (fst (process_sample ft raw x))"
proof (cases x)
  case (fields s c w)
  let ?d = "detect_crossing (int_of_double (filter_output (isolated raw s))) (isolated raw s)"
  have a: "dsp_frame s (fst ?d)"
    using dsp_frame_isolated dsp_frame_detect_crossing dsp_frame_trans by blast
  have b: "dsp_frame (fst ?d) (fst (crossing_event ft (fst ?d, c, w)))"
    using dsp_frame_crossing_event [of "(fst ?d, c, w)" ft] by simp
  show ?thesis
    using a b dsp_frame_trans by (auto simp add: fields process_sample_eq Let_def)
qed

lemma dsp_frame_fold: "dsp_frame (fst x) (fst (fold (process_sample ft) block x))"
proof (induction block arbitrary: x)
  case Nil
  show ?case by (simp add: dsp_frame_refl)
next
  case (Cons raw raws)
  show ?case
    using dsp_frame_process_sample [of x ft raw] Cons [of "process_sample ft raw x"]
    by (auto intro: dsp_frame_trans)
qed

lemma dsp_frame_dsp_pass: "dsp_frame s (fst (dsp_pass ft block (s, c)))"
  using dsp_frame_fold [of "(s, c, \<lparr>sum_of_squares = 0, max_quasi_peak = 0\<rparr>)" ft block]
  by (simp add: dsp_pass.simps)

subsection \<open>Blocks that the gate rejects\<close>

lemma after_gate_eq:
  "after_gate s block =
     s\<lparr>previous_sample_raw := last (previous_sample_raw s # map short_of_int block)\<rparr>"
  by (simp add: after_gate_def gate_pass_def fold_gate_step)

lemma quiet_block_invalid:
  assumes "\<forall>x \<in> set block. short_of_int x < 50"
  shows "\<not> window_valid s block"
proof -
  have "Max (insert 0 (short_of_int ` set block)) < 50"
    using assms by (subst Max_less_iff) auto
  then show ?thesis
    by (simp add: window_valid_def gate_pass_eq block_valid_def)
qed

lemma quiet_blocks_fold:
  assumes "\<forall>b \<in> set blocks. \<forall>x \<in> set b. short_of_int x < 50"
  shows "fold (process_window ft) blocks (s, c) =
           (s\<lparr>previous_sample_raw :=
                 last (previous_sample_raw s # map short_of_int (concat blocks))\<rparr>, c)"
  using assms
proof (induction blocks arbitrary: s)
  case Nil
  show ?case by simp
next
  case (Cons b blocks)
  have q: "\<not> window_valid s b"
    using Cons.prems by (simp add: quiet_block_invalid)
  have rest: "\<forall>b \<in> set blocks. \<forall>x \<in> set b. short_of_int x < 50"
    using Cons.prems by simp
  show ?case
    by (simp add: process_window_cases q after_gate_eq Cons.IH [OF rest] last_append)
qed

lemma window_blocks_subset:
  "b \<in> set (window_blocks m n samples) \<Longrightarrow> set b \<subseteq> set samples"
  by (auto simp: window_blocks_def dest!: in_set_takeD in_set_dropD)

lemma short_of_int_zero [simp]: "short_of_int 0 = 0"
  by (simp add: short_of_int_def)

lemma init_results [simp]:
  "result_quasi_peak (flutterMeter_init sr tf s) = 0"
  "result_rms_percent (flutterMeter_init sr tf s) = Finite 0"
  "result_frequency_hz (flutterMeter_init sr tf s) = 0"
  by (simp_all add: flutterMeter_init_def reset_filters_def Let_def)

text \<open>
  C7. After \<^verbatim>\<open>flutterMeter_init\<close>, a call on samples that are all zero, with a count that
  passes the test of the call (at least \<open>100 * samples_per_100ms\<close>, a product that the
  code forms in an \<^verbatim>\<open>int\<close>), returns 0 and \<^verbatim>\<open>get_results\<close> gives \<open>(0, 0.0, 0)\<close>, the
  middle component being the finite number \<open>0.0\<close> and not NaN. No window passes the gate,
  so nothing is computed at all: the state is the one \<^verbatim>\<open>flutterMeter_init\<close> left, up to
  \<^verbatim>\<open>previous_sample_raw\<close>.
\<close>

theorem silence_gives_zero_results:
  assumes "\<forall>x \<in> set samples. x = 0"
    and "int32 (samples_per_100ms (flutterMeter_init sr tf s) * 100) \<le> num_samples"
  shows "fst (process_samples samples num_samples ft (flutterMeter_init sr tf s)) = 0
       \<and> get_results (snd (process_samples samples num_samples ft (flutterMeter_init sr tf s)))
           = (0, Finite 0, 0)
       \<and> (\<exists>p. snd (process_samples samples num_samples ft (flutterMeter_init sr tf s))
              = (flutterMeter_init sr tf s)\<lparr>previous_sample_raw := p\<rparr>)"
proof -
  let ?s = "flutterMeter_init sr tf s"
  let ?blocks = "window_blocks 100 (nat (samples_per_100ms ?s)) samples"
  have quiet: "\<forall>b \<in> set ?blocks. \<forall>x \<in> set b. short_of_int x < 50"
  proof (intro ballI)
    fix b x assume "b \<in> set ?blocks" and "x \<in> set b"
    then have "x \<in> set samples" using window_blocks_subset by blast
    then have "x = 0" using assms(1) by simp
    then show "short_of_int x < 50" by simp
  qed
  have run: "process_samples samples num_samples ft ?s =
               (0, ?s\<lparr>previous_sample_raw :=
                         last (previous_sample_raw ?s # map short_of_int (concat ?blocks))\<rparr>)"
    using assms(2)
    by (simp add: process_samples_def windows_loop_fold quiet_blocks_fold [OF quiet])
  have ex: "\<exists>p. snd (process_samples samples num_samples ft ?s) = ?s\<lparr>previous_sample_raw := p\<rparr>"
    unfolding run by (rule exI [of _ "last (previous_sample_raw ?s # map short_of_int (concat ?blocks))"]) simp
  have res: "fst (process_samples samples num_samples ft ?s) = 0"
    "get_results (snd (process_samples samples num_samples ft ?s)) = (0, Finite 0, 0)"
    unfolding run by (simp_all add: get_results_def)
  from res ex show ?thesis by blast
qed

theorem silence_gives_zero_results_witness:
  "fst (process_samples (replicate 480000 0) 480000 1 (flutterMeter_init 48000 3150 initial_meter)) = 0
 \<and> get_results (snd (process_samples (replicate 480000 0) 480000 1
                        (flutterMeter_init 48000 3150 initial_meter))) = (0, Finite 0, 0)"
proof -
  have spm: "samples_per_100ms (flutterMeter_init 48000 3150 initial_meter) = 4800"
    by (simp add: flutterMeter_init_def reset_filters_def Let_def c_div_def)
  show ?thesis
    using silence_gives_zero_results
            [of "replicate 480000 0" 48000 3150 initial_meter 480000 1]
    by (simp add: spm int32_def)
qed

subsection \<open>The quasi-peak value and the peak slot\<close>

lemma emitted_crossing_event:
  "crossing_event ft (s, c, w) = x' \<Longrightarrow>
     (if is_first_buffer s \<noteq> 0
      then emitted x' = freq_count_5sec c \<and> snd (snd x') = w
           \<and> current_quasi_peak (fst x') = current_quasi_peak s
      else emitted x' = freq_count_5sec c + 1
           \<and> max_quasi_peak (snd (snd x')) = current_quasi_peak (fst x'))"
  by (auto simp add: crossing_event.simps emitted_def Let_def split_def)

lemma qp_detect_crossing [simp]:
  "current_quasi_peak (fst (detect_crossing v s)) = current_quasi_peak s"
  by (simp add: detect_crossing_def Let_def split_def)

lemma qp_isolated [simp]: "current_quasi_peak (isolated raw s) = current_quasi_peak s"
  by (simp add: isolated_def Let_def)

lemma process_sample_peak:
  "emitted (process_sample ft raw x) = emitted x
     \<and> snd (snd (process_sample ft raw x)) = snd (snd x)
     \<and> current_quasi_peak (fst (process_sample ft raw x)) = current_quasi_peak (fst x)
   \<or> emitted (process_sample ft raw x) = emitted x + 1
     \<and> max_quasi_peak (snd (snd (process_sample ft raw x)))
         = current_quasi_peak (fst (process_sample ft raw x))"
proof (cases x)
  case (fields s c w)
  let ?d = "detect_crossing (int_of_double (filter_output (isolated raw s))) (isolated raw s)"
  show ?thesis
  proof (cases "snd ?d")
    case False
    then show ?thesis
      by (simp add: fields process_sample_eq Let_def emitted_def)
  next
    case True
    then have p: "process_sample ft raw (s, c, w) = crossing_event ft (fst ?d, c, w)"
      by (simp add: process_sample_eq Let_def)
    show ?thesis
      using emitted_crossing_event [where ft = ft and s = "fst ?d" and c = c and w = w, OF refl]
      by (auto simp add: fields p emitted_def split: if_splits)
  qed
qed

lemma emitted_mono_fold: "emitted x \<le> emitted (fold (process_sample ft) block x)"
proof (induction block arbitrary: x)
  case Nil
  show ?case by simp
next
  case (Cons raw raws)
  have "emitted x \<le> emitted (process_sample ft raw x)"
    using process_sample_peak [of ft raw x] by auto
  then show ?case
    using Cons [of "process_sample ft raw x"] by simp
qed

lemma fold_process_sample_peak:
  "(emitted (fold (process_sample ft) block x) = emitted x \<longrightarrow>
      snd (snd (fold (process_sample ft) block x)) = snd (snd x)
      \<and> current_quasi_peak (fst (fold (process_sample ft) block x)) = current_quasi_peak (fst x))
 \<and> (emitted (fold (process_sample ft) block x) \<noteq> emitted x \<longrightarrow>
      max_quasi_peak (snd (snd (fold (process_sample ft) block x)))
        = current_quasi_peak (fst (fold (process_sample ft) block x)))"
proof (induction block arbitrary: x)
  case Nil
  show ?case by simp
next
  case (Cons raw raws)
  let ?x1 = "process_sample ft raw x"
  let ?x2 = "fold (process_sample ft) raws ?x1"
  have mono: "emitted ?x1 \<le> emitted ?x2" by (rule emitted_mono_fold)
  have step: "emitted ?x1 = emitted x \<and> snd (snd ?x1) = snd (snd x)
                \<and> current_quasi_peak (fst ?x1) = current_quasi_peak (fst x)
            \<or> emitted ?x1 = emitted x + 1
                \<and> max_quasi_peak (snd (snd ?x1)) = current_quasi_peak (fst ?x1)"
    by (rule process_sample_peak)
  have ih: "(emitted ?x2 = emitted ?x1 \<longrightarrow>
               snd (snd ?x2) = snd (snd ?x1)
               \<and> current_quasi_peak (fst ?x2) = current_quasi_peak (fst ?x1))
          \<and> (emitted ?x2 \<noteq> emitted ?x1 \<longrightarrow>
               max_quasi_peak (snd (snd ?x2)) = current_quasi_peak (fst ?x2))"
    by (rule Cons)
  from step show ?case
  proof
    assume a: "emitted ?x1 = emitted x \<and> snd (snd ?x1) = snd (snd x)
                \<and> current_quasi_peak (fst ?x1) = current_quasi_peak (fst x)"
    with ih show ?thesis by simp
  next
    assume b: "emitted ?x1 = emitted x + 1
                \<and> max_quasi_peak (snd (snd ?x1)) = current_quasi_peak (fst ?x1)"
    then have ne: "emitted ?x2 \<noteq> emitted x" using mono by simp
    have "max_quasi_peak (snd (snd ?x2)) = current_quasi_peak (fst ?x2)"
    proof (cases "emitted ?x2 = emitted ?x1")
      case True
      with ih b show ?thesis by simp
    next
      case False
      with ih show ?thesis by simp
    qed
    with ne show ?thesis by simp
  qed
qed

lemma end_of_window_fields:
  "peak_values_100ms (end_of_window (s, c, w))
     = (peak_values_100ms s)[peak_index_100ms s := max_quasi_peak w]"
  "peak_index_100ms (end_of_window (s, c, w)) = next_peak_index (peak_index_100ms s)"
  "current_quasi_peak (end_of_window (s, c, w)) = current_quasi_peak s"
  "buffer_rms_1sec_sums (end_of_window (s, c, w))
     = (buffer_rms_1sec_sums s)[rms_1sec_buffer_index s := sum_of_squares w]"
  "previous_sample_raw (end_of_window (s, c, w)) = previous_sample_raw s"
  by (simp_all add: end_of_window.simps one_second_boundary_def Let_def)

lemma dsp_pass_peak:
  "max_quasi_peak (snd (snd (dsp_pass ft block (s, c))))
     = (if freq_count_5sec (fst (snd (dsp_pass ft block (s, c)))) = freq_count_5sec c then 0
        else current_quasi_peak (fst (dsp_pass ft block (s, c))))"
  "freq_count_5sec (fst (snd (dsp_pass ft block (s, c)))) = freq_count_5sec c \<Longrightarrow>
     current_quasi_peak (fst (dsp_pass ft block (s, c))) = current_quasi_peak s"
  using fold_process_sample_peak
          [of ft block "(s, c, \<lparr>sum_of_squares = 0, max_quasi_peak = 0\<rparr>)"]
  by (auto simp add: dsp_pass.simps emitted_def)

text \<open>
  C5, as the code has it. \<^verbatim>\<open>freq_count_5sec\<close> goes up by one at every emitted crossing,
  so it has moved over a window exactly when the window emitted a crossing. For a valid
  window that emitted one, the value written to the peak slot is the quasi-peak value as
  it stands at the end of the window, which is its value after the last emitted crossing
  (the last value, whatever larger values it had before). For a valid window that
  emitted none, \<open>0\<close> is written and the quasi-peak value is what it was.
\<close>

theorem peak_slot_value:
  assumes "window_valid s block"
  shows "peak_values_100ms (fst (process_window ft block (s, c)))
           = (peak_values_100ms s)[peak_index_100ms s :=
                (if freq_count_5sec (snd (process_window ft block (s, c))) = freq_count_5sec c
                 then 0
                 else current_quasi_peak (fst (process_window ft block (s, c))))]
       \<and> (freq_count_5sec (snd (process_window ft block (s, c))) = freq_count_5sec c \<longrightarrow>
            current_quasi_peak (fst (process_window ft block (s, c))) = current_quasi_peak s)"
proof -
  let ?d = "dsp_pass ft block (after_gate s block, c)"
  obtain s1 c1 w1 where d: "?d = (s1, c1, w1)" by (cases ?d)
  have fr: "dsp_frame (after_gate s block) s1"
    using dsp_frame_dsp_pass [of "after_gate s block" ft block c] by (simp add: d)
  have pv: "peak_values_100ms s1 = peak_values_100ms s" "peak_index_100ms s1 = peak_index_100ms s"
    using fr by (simp_all add: dsp_frame_def after_gate_def)
  have w: "max_quasi_peak w1 = (if freq_count_5sec c1 = freq_count_5sec c then 0
                                else current_quasi_peak s1)"
    using dsp_pass_peak(1) [of ft block "after_gate s block" c] by (simp add: d)
  have q: "freq_count_5sec c1 = freq_count_5sec c \<Longrightarrow> current_quasi_peak s1 = current_quasi_peak s"
    using dsp_pass_peak(2) [of ft block "after_gate s block" c] unfolding d
    by (simp add: after_gate_def)
  have pw: "process_window ft block (s, c) = (end_of_window (s1, c1, w1), c1)"
    using assms by (simp add: process_window_cases d)
  show ?thesis
    using q by (simp add: pw end_of_window_fields pv w)
qed

text \<open>
  Two windows of a small session, evaluated: the first sample is the warm-up crossing, the
  second one is emitted and moves the quasi-peak value away from zero.
\<close>

lemma after_one_window_eval:
  "after_one_window =
     (tiny_session\<lparr>
        previous_sample_raw := 50,
        filter_input := 50,
        buf2nd_order := [0, 1207405190260069 / 20000000000000000, 0,
                         1207405190260069 / 20000000000000000],
        filter_output := 1207405190260069 / 20000000000000000,
        current_interval_ns := 100000000,
        interval_remainder_ns := 0,
        previous_sample := 0,
        valid_sample_count := 0,
        is_first_buffer := 0,
        peak_index_100ms := 1,
        rms_1sec_buffer_index := 1\<rparr>, call_start)"
  by (simp add: after_one_window_def eval_defs cong: let_weak_cong)

lemma after_two_windows_eval:
  "freq_count_5sec (snd after_two_windows) = 1"
  "current_quasi_peak (fst after_two_windows) = 826630206595143 / 10625000000000000000"
  "peak_values_100ms (fst after_two_windows) ! 1 = 826630206595143 / 10625000000000000000"
  "peak_index_100ms (fst after_two_windows) = 2"
  "interval_sum_ns (fst after_two_windows) = 200000000"
  by (simp_all add: after_two_windows_def after_one_window_def eval_defs cong: let_weak_cong)

lemma after_one_window_valid: "window_valid (fst after_one_window) [50]"
  by (simp add: after_one_window_def window_valid_def eval_defs cong: let_weak_cong)

theorem peak_slot_value_witness:
  "peak_values_100ms (fst after_two_windows)
     = (peak_values_100ms (fst after_one_window))[peak_index_100ms (fst after_one_window) :=
          current_quasi_peak (fst after_two_windows)]"
proof -
  have c: "freq_count_5sec (snd after_one_window) = 0"
    by (simp add: after_one_window_eval call_start_def)
  have p: "process_window 0 [50] (fst after_one_window, snd after_one_window) = after_two_windows"
    by (simp add: after_two_windows_def)
  show ?thesis
    using peak_slot_value [OF after_one_window_valid, of 0 "snd after_one_window"]
    unfolding p by (simp add: c after_two_windows_eval(1))
qed

text \<open>
  C5 as it is stated fails where a valid window emits no crossing. After the two windows
  above the quasi-peak value is not zero. A third window that holds the sample 32767 is
  valid, the isolator's output truncates to 40 with the previous value 0, so no crossing
  is detected: the slot written by that window holds \<open>0\<close>, which is not the quasi-peak
  value.
\<close>

theorem peak_slot_counterexample:
  "window_valid (fst after_two_windows) [32767]
 \<and> peak_values_100ms (fst (process_window 0 [32767] after_two_windows))
       ! peak_index_100ms (fst after_two_windows) = 0
 \<and> current_quasi_peak (fst (process_window 0 [32767] after_two_windows))
       = 826630206595143 / 10625000000000000000"
  by (simp add: after_two_windows_def after_one_window_def window_valid_def eval_defs
        cong: let_weak_cong)

subsection \<open>The one-second boundary\<close>

lemma fold_nth_upt: "fold (\<lambda>i. f (arr ! i)) [0..<length arr] a = fold f arr a"
proof -
  have "fold f (map (nth arr) [0..<length arr]) a = fold (f \<circ> nth arr) [0..<length arr] a"
    by (simp add: fold_map)
  then show ?thesis by (simp add: map_nth comp_def)
qed

lemma scan_max_eq:
  assumes "length arr = 50"
  shows "scan_max arr = Max (insert 0 (set arr))"
proof -
  have "scan_max arr = fold (\<lambda>i. max (arr ! i)) [0..<length arr] 0"
    by (simp add: scan_max_def assms max_def cong: if_cong)
       (rule arg_cong [where f = "\<lambda>g. fold g [0..<50] 0"], auto simp: fun_eq_iff)
  also have "\<dots> = fold max arr 0" by (rule fold_nth_upt)
  also have "\<dots> = Max (set (0 # arr))" by (simp only: Max.set_eq_fold)
  finally show ?thesis by simp
qed

lemma scan_max_nonneg:
  assumes "length arr = 50" and "list_all (\<lambda>x. 0 \<le> x) arr"
  shows "scan_max arr = Max (set arr)"
proof -
  have ne: "set arr \<noteq> {}" using assms(1) by auto
  then obtain a where a: "a \<in> set arr" by (cases arr) auto
  then have "0 \<le> a" using assms(2) by (simp add: list_all_iff)
  also have "a \<le> Max (set arr)" using a by simp
  finally have "0 \<le> Max (set arr)" .
  then show ?thesis
    using ne by (simp add: scan_max_eq [OF assms(1)] max_def)
qed




lemma scan_max_rms_fold:
  assumes "length arr = 50"
  shows "scan_max_rms arr = fold (\<lambda>x m. if xgt x m then x else m) arr (Finite 0)"
  using fold_nth_upt [of "\<lambda>x m. if xgt x m then x else m" arr "Finite 0"]
  by (simp add: scan_max_rms_def assms)





text \<open>
  A second in which no crossing was emitted has a zero count and a zero sum of squares:
  the value stored in the max-RMS ring is NaN, and the scan passes over it.
\<close>

lemma boundary_without_crossing:
  "rms_percent_of 0 0 = NaN"
  "scan_max_rms ((replicate 50 (Finite 0))[10 := NaN]) = Finite 0"
  by (simp_all add: rms_percent_of_def scan_max_rms_fold replicate_num)

lemma total_sum_of_squares_eq:
  assumes "length arr = 10"
  shows "total_sum_of_squares arr = sum_list arr"
proof -
  have "(\<lambda>i t. t + arr ! i) = (\<lambda>i. (+) (arr ! i))"
    by (auto simp: fun_eq_iff)
  then have "total_sum_of_squares arr = fold (\<lambda>i. (+) (arr ! i)) [0..<length arr] 0"
    by (simp add: total_sum_of_squares_def assms)
  also have "\<dots> = fold (+) arr 0" by (rule fold_nth_upt)
  also have "\<dots> = sum_list arr"
    by (simp add: fold_plus_sum_list_rev)
  finally show ?thesis .
qed

lemma next_peak_index_less: "i < 50 \<Longrightarrow> next_peak_index i < 50"
  by (simp add: next_peak_index_def)

lemma end_of_window_boundary:
  assumes "rms_1sec_buffer_index s = 9"
  shows "end_of_window (s, c, w) =
           one_second_boundary c
             (s\<lparr>buffer_rms_1sec_sums := (buffer_rms_1sec_sums s)[9 := sum_of_squares w],
                 peak_values_100ms := (peak_values_100ms s)[peak_index_100ms s := max_quasi_peak w],
                 peak_index_100ms := next_peak_index (peak_index_100ms s),
                 rms_1sec_buffer_index := 10\<rparr>)"
  using assms by (simp add: end_of_window.simps Let_def)

lemma end_of_window_no_boundary:
  assumes "rms_1sec_buffer_index s \<noteq> 9"
  shows "end_of_window (s, c, w) =
           s\<lparr>buffer_rms_1sec_sums :=
                 (buffer_rms_1sec_sums s)[rms_1sec_buffer_index s := sum_of_squares w],
               peak_values_100ms := (peak_values_100ms s)[peak_index_100ms s := max_quasi_peak w],
               peak_index_100ms := next_peak_index (peak_index_100ms s),
               rms_1sec_buffer_index := rms_1sec_buffer_index s + 1\<rparr>"
  using assms by (simp add: end_of_window.simps Let_def)

lemma boundary_effect:
  assumes idx: "rms_1sec_buffer_index s = 9" and wf: "meter_wf s"
    and w: "0 \<le> max_quasi_peak w"
  shows "max_rms_array (end_of_window (s, c, w))
           = (max_rms_array s)[next_peak_index (peak_index_100ms s) :=
                rms_percent_of (sum_list ((buffer_rms_1sec_sums s)[9 := sum_of_squares w]))
                  (valid_sample_count s)]"
    and "result_rms_percent (end_of_window (s, c, w))
           = scan_max_rms (max_rms_array (end_of_window (s, c, w)))"
    and "result_quasi_peak (end_of_window (s, c, w))
           = Max (set (peak_values_100ms (end_of_window (s, c, w))))"
    and "valid_sample_count (end_of_window (s, c, w)) = 0"
    and "rms_1sec_buffer_index (end_of_window (s, c, w)) = 0"
    and "interval_sum_ns (end_of_window (s, c, w)) = 0"
proof -
  have len: "length (buffer_rms_1sec_sums s) = 10" "length (peak_values_100ms s) = 50"
    and nn: "list_all (\<lambda>x. 0 \<le> x) (peak_values_100ms s)"
    using wf by (simp_all add: meter_wf_def)
  have tot: "total_sum_of_squares ((buffer_rms_1sec_sums s)[9 := sum_of_squares w])
              = sum_list ((buffer_rms_1sec_sums s)[9 := sum_of_squares w])"
    by (rule total_sum_of_squares_eq) (simp add: len)
  show "max_rms_array (end_of_window (s, c, w))
           = (max_rms_array s)[next_peak_index (peak_index_100ms s) :=
                rms_percent_of (sum_list ((buffer_rms_1sec_sums s)[9 := sum_of_squares w]))
                  (valid_sample_count s)]"
    by (simp add: end_of_window_boundary [OF idx] one_second_boundary_def Let_def tot)
  show "result_rms_percent (end_of_window (s, c, w))
           = scan_max_rms (max_rms_array (end_of_window (s, c, w)))"
    by (simp add: end_of_window_boundary [OF idx] one_second_boundary_def Let_def)
  have nn_peak: "list_all (\<lambda>x. 0 \<le> x) (peak_values_100ms (end_of_window (s, c, w)))"
    unfolding end_of_window_fields list_all_iff using nn w
    by (auto simp add: list_all_iff dest!: set_update_subset_insert [THEN subsetD])
  have "result_quasi_peak (end_of_window (s, c, w))
          = scan_max (peak_values_100ms (end_of_window (s, c, w)))"
    by (simp add: end_of_window_boundary [OF idx] one_second_boundary_def Let_def)
  also have "\<dots> = Max (set (peak_values_100ms (end_of_window (s, c, w))))"
    by (rule scan_max_nonneg)
       (simp_all add: end_of_window_fields len nn_peak [unfolded end_of_window_fields])
  finally show "result_quasi_peak (end_of_window (s, c, w))
           = Max (set (peak_values_100ms (end_of_window (s, c, w))))" .
  show "valid_sample_count (end_of_window (s, c, w)) = 0"
    "rms_1sec_buffer_index (end_of_window (s, c, w)) = 0"
    "interval_sum_ns (end_of_window (s, c, w)) = 0"
    by (simp_all add: end_of_window_boundary [OF idx] one_second_boundary_def Let_def)
qed

subsection \<open>Well-formed states stay well-formed\<close>

lemma quasi_peak_update_nonneg:
  assumes "0 \<le> m" and "0 \<le> qp"
  shows "0 \<le> quasi_peak_update m qp"
proof (cases "m > qp")
  case True
  then show ?thesis using assms by (simp add: quasi_peak_update_def)
next
  case False
  have "0 \<le> 5999 * qp + m" using assms by simp
  then have "0 \<le> (5999 * qp + m) / 6000" by simp
  also have "(5999 * qp + m) / 6000 = qp + (m - qp) / 6000"
    by (simp add: add_divide_distrib diff_divide_distrib)
  finally have "0 \<le> qp + (m - qp) / 6000" .
  then show ?thesis using False by (simp add: quasi_peak_update_def)
qed

lemma dsp_nonneg_crossing_event:
  assumes "dsp_nonneg x"
  shows "dsp_nonneg (crossing_event ft x)"
proof (cases x)
  case (fields s c w)
  have a: "current_quasi_peak (snd (apply_weighting ft e s)) = current_quasi_peak s"
    "valid_sample_count (snd (apply_weighting ft e s)) = valid_sample_count s" for e
    by (simp_all add: apply_weighting_def Let_def split_def)
  show ?thesis
    using assms
    by (simp add: fields crossing_event.simps dsp_nonneg_def Let_def split_def a
          quasi_peak_update_nonneg)
qed

lemma dsp_nonneg_process_sample:
  assumes "dsp_nonneg x"
  shows "dsp_nonneg (process_sample ft raw x)"
proof (cases x)
  case (fields s c w)
  let ?d = "detect_crossing (int_of_double (filter_output (isolated raw s))) (isolated raw s)"
  have vc: "valid_sample_count (fst ?d) = valid_sample_count s"
    by (simp add: detect_crossing_def isolated_def Let_def split_def)
  have d: "dsp_nonneg (fst ?d, c, w)"
    using assms by (simp add: fields dsp_nonneg_def vc)
  show ?thesis
    using d dsp_nonneg_crossing_event [OF d, of ft]
    by (simp add: fields process_sample_eq Let_def)
qed

lemma dsp_nonneg_fold:
  assumes "dsp_nonneg x"
  shows "dsp_nonneg (fold (process_sample ft) block x)"
  using assms
  by (induction block arbitrary: x) (simp_all add: dsp_nonneg_process_sample)

lemma dsp_nonneg_dsp_pass:
  assumes "0 \<le> current_quasi_peak s" and "0 \<le> valid_sample_count s"
  shows "dsp_nonneg (dsp_pass ft block (s, c))"
proof -
  have "dsp_nonneg (s, c, \<lparr>sum_of_squares = 0, max_quasi_peak = 0\<rparr>)"
    using assms by (simp add: dsp_nonneg_def)
  then show ?thesis
    by (simp add: dsp_pass.simps dsp_nonneg_fold)
qed

lemma list_all_update:
  assumes "list_all P xs" and "P v"
  shows "list_all P (xs[i := v])"
  using assms
  by (auto simp add: list_all_iff dest!: set_update_subset_insert [THEN subsetD])

lemma meter_wf_end_of_window:
  assumes wf: "meter_wf s" and w: "0 \<le> max_quasi_peak w" and sq: "0 \<le> sum_of_squares w"
  shows "meter_wf (end_of_window (s, c, w))"
proof (cases "rms_1sec_buffer_index s = 9")
  case False
  then have "rms_1sec_buffer_index s + 1 < 10"
    using wf by (simp add: meter_wf_def)
  then show ?thesis
    using wf w sq
    by (simp add: end_of_window_no_boundary [OF False] meter_wf_def list_all_update
          next_peak_index_less)
next
  case True
  have c: "length (max_rms_array (end_of_window (s, c, w))) = 50"
    unfolding boundary_effect(1) [OF True wf w] using wf by (simp add: meter_wf_def)
  show ?thesis
    using wf w sq c True
    by (simp add: meter_wf_def end_of_window_fields list_all_update next_peak_index_less
          boundary_effect(4,5) [OF True wf w])
qed

lemma meter_wf_frame:
  assumes "meter_wf s" and "dsp_frame s s'"
    and "0 \<le> current_quasi_peak s'" and "0 \<le> valid_sample_count s'"
  shows "meter_wf s'"
  using assms by (simp add: meter_wf_def dsp_frame_def)

lemma meter_wf_after_gate: "meter_wf (after_gate s block) = meter_wf s"
  by (simp add: meter_wf_def after_gate_def)

lemma meter_wf_process_window:
  assumes "meter_wf (fst x)"
  shows "meter_wf (fst (process_window ft block x))"
proof (cases x)
  case (Pair s c)
  note fields = Pair
  let ?d = "dsp_pass ft block (after_gate s block, c)"
  obtain s1 c1 w1 where d: "?d = (s1, c1, w1)" by (cases ?d)
  have wf: "meter_wf (after_gate s block)"
    using assms by (simp add: fields meter_wf_after_gate)
  have nn: "dsp_nonneg ?d"
    using wf by (intro dsp_nonneg_dsp_pass) (simp_all add: meter_wf_def)
  have fr: "dsp_frame (after_gate s block) s1"
    using dsp_frame_dsp_pass [of "after_gate s block" ft block c] by (simp add: d)
  have wf1: "meter_wf s1"
    using nn by (intro meter_wf_frame [OF wf fr]) (simp_all add: d dsp_nonneg_def)
  have "meter_wf (end_of_window (s1, c1, w1))"
    using nn by (intro meter_wf_end_of_window [OF wf1]) (simp_all add: d dsp_nonneg_def)
  then show ?thesis
    using wf by (simp add: fields process_window_cases d)
qed

lemma meter_wf_fold:
  assumes "meter_wf (fst x)"
  shows "meter_wf (fst (fold (process_window ft) blocks x))"
  using assms
  by (induction blocks arbitrary: x) (simp_all add: meter_wf_process_window)

lemma meter_wf_init:
  assumes "0 \<le> valid_sample_count s"
  shows "meter_wf (flutterMeter_init sr tf s)"
  using assms
  by (simp add: meter_wf_def flutterMeter_init_def reset_filters_def Let_def list_all_iff)

lemma meter_wf_first_init: "meter_wf (flutterMeter_init sr tf initial_meter)"
  by (rule meter_wf_init) (simp add: initial_meter_def)

lemma meter_wf_process_samples:
  assumes "meter_wf s"
  shows "meter_wf (snd (process_samples samples num_samples ft s))"
  using assms meter_wf_fold [of "(s, \<lparr>freq_sum_5sec = 0, freq_count_5sec = 0\<rparr>)"]
  by (simp add: process_samples_def windows_loop_fold)

subsection \<open>A window that passes the gate\<close>

lemma end_of_window_config:
  "min_zero_crossings (end_of_window (s, c, w)) = min_zero_crossings s"
  "max_zero_crossings (end_of_window (s, c, w)) = max_zero_crossings s"
  "rms_1sec_buffer_index (end_of_window (s, c, w))
     = (if rms_1sec_buffer_index s = 9 then 0 else rms_1sec_buffer_index s + 1)"
  "rms_1sec_buffer_index s \<noteq> 9 \<Longrightarrow> get_results (end_of_window (s, c, w)) = get_results s"
  by (simp_all add: end_of_window.simps one_second_boundary_def Let_def get_results_def)

lemma valid_window_fields:
  assumes "window_valid s block"
  shows "rms_1sec_buffer_index (fst (process_window ft block (s, c)))
           = (if rms_1sec_buffer_index s = 9 then 0 else rms_1sec_buffer_index s + 1)"
    and "peak_index_100ms (fst (process_window ft block (s, c)))
           = next_peak_index (peak_index_100ms s)"
    and "min_zero_crossings (fst (process_window ft block (s, c))) = min_zero_crossings s"
    and "max_zero_crossings (fst (process_window ft block (s, c))) = max_zero_crossings s"
    and "previous_sample_raw (fst (process_window ft block (s, c)))
           = last (previous_sample_raw s # map short_of_int block)"
    and "rms_1sec_buffer_index s \<noteq> 9 \<Longrightarrow>
           get_results (fst (process_window ft block (s, c))) = get_results s"
    and "k \<noteq> peak_index_100ms s \<Longrightarrow>
           peak_values_100ms (fst (process_window ft block (s, c))) ! k = peak_values_100ms s ! k"
proof -
  let ?d = "dsp_pass ft block (after_gate s block, c)"
  obtain s1 c1 w1 where d: "?d = (s1, c1, w1)" by (cases ?d)
  have fr: "dsp_frame (after_gate s block) s1"
    using dsp_frame_dsp_pass [of "after_gate s block" ft block c] by (simp add: d)
  have pw: "process_window ft block (s, c) = (end_of_window (s1, c1, w1), c1)"
    using assms by (simp add: process_window_cases d)
  have f: "rms_1sec_buffer_index s1 = rms_1sec_buffer_index s"
    "peak_index_100ms s1 = peak_index_100ms s"
    "min_zero_crossings s1 = min_zero_crossings s"
    "max_zero_crossings s1 = max_zero_crossings s"
    "previous_sample_raw s1 = last (previous_sample_raw s # map short_of_int block)"
    "get_results s1 = get_results s"
    "peak_values_100ms s1 = peak_values_100ms s"
    using fr by (simp_all add: dsp_frame_def after_gate_eq get_results_def)
  show "rms_1sec_buffer_index (fst (process_window ft block (s, c)))
           = (if rms_1sec_buffer_index s = 9 then 0 else rms_1sec_buffer_index s + 1)"
    and "peak_index_100ms (fst (process_window ft block (s, c)))
           = next_peak_index (peak_index_100ms s)"
    and "min_zero_crossings (fst (process_window ft block (s, c))) = min_zero_crossings s"
    and "max_zero_crossings (fst (process_window ft block (s, c))) = max_zero_crossings s"
    and "previous_sample_raw (fst (process_window ft block (s, c)))
           = last (previous_sample_raw s # map short_of_int block)"
    by (simp_all add: pw end_of_window_config end_of_window_fields f)
  show "get_results (fst (process_window ft block (s, c))) = get_results s"
    if "rms_1sec_buffer_index s \<noteq> 9"
    using that by (simp add: pw end_of_window_config f)
  show "peak_values_100ms (fst (process_window ft block (s, c))) ! k = peak_values_100ms s ! k"
    if "k \<noteq> peak_index_100ms s"
    using that by (simp add: pw end_of_window_fields f)
qed


subsection \<open>A session whose gate needs a sign change in every window\<close>

lemma gated_window_valid:
  assumes "gated s"
  shows "window_valid s [100]"
  using assms
  by (simp add: gated_def window_valid_def gate_pass_def block_valid_def short_of_int_def)

lemma tone_pair_step:
  assumes "gated (fst x)"
  shows "gated (fst (tone_pair ft x))"
    and "rms_1sec_buffer_index (fst (tone_pair ft x))
           = (if rms_1sec_buffer_index (fst x) = 9 then 0 else rms_1sec_buffer_index (fst x) + 1)"
    and "peak_index_100ms (fst (tone_pair ft x)) = next_peak_index (peak_index_100ms (fst x))"
    and "rms_1sec_buffer_index (fst x) \<noteq> 9 \<Longrightarrow>
           get_results (fst (tone_pair ft x)) = get_results (fst x)"
    and "k \<noteq> peak_index_100ms (fst x) \<Longrightarrow>
           peak_values_100ms (fst (tone_pair ft x)) ! k = peak_values_100ms (fst x) ! k"
    and "tone_pair ft x = (after_gate (fst (process_window ft [100] x)) [- 100],
                           snd (process_window ft [100] x))"
proof -
  obtain s c where x: "x = (s, c)" by (cases x)
  have v: "window_valid s [100]"
    using assms by (simp add: x gated_window_valid)
  let ?y = "process_window ft [100] (s, c)"
  have q: "\<not> window_valid (fst ?y) [- 100]"
    by (rule quiet_block_invalid) (simp add: short_of_int_def)
  have tp: "tone_pair ft (s, c) = (after_gate (fst ?y) [- 100], snd ?y)"
    using q process_window_cases [of ft "[- 100]" "fst ?y" "snd ?y"]
    by (simp add: tone_pair_def)
  then show "tone_pair ft x = (after_gate (fst (process_window ft [100] x)) [- 100],
                          snd (process_window ft [100] x))"
    by (simp add: x)
  have wf: "meter_wf (fst ?y)"
    using assms meter_wf_process_window [of "(s, c)" ft "[100]"] by (simp add: x gated_def)
  have spm: "samples_per_100ms (fst ?y) = 1"
    using assms by (simp add: x gated_def)
  show "gated (fst (tone_pair ft x))"
    using assms wf spm
    by (simp add: x tp gated_def after_gate_eq meter_wf_def valid_window_fields(3,4) [OF v]
          short_of_int_def)
  show "rms_1sec_buffer_index (fst (tone_pair ft x))
           = (if rms_1sec_buffer_index (fst x) = 9 then 0 else rms_1sec_buffer_index (fst x) + 1)"
    and "peak_index_100ms (fst (tone_pair ft x)) = next_peak_index (peak_index_100ms (fst x))"
    by (simp_all add: x tp after_gate_def valid_window_fields(1,2) [OF v])
  show "get_results (fst (tone_pair ft x)) = get_results (fst x)"
    if "rms_1sec_buffer_index (fst x) \<noteq> 9"
    using that valid_window_fields(6) [OF v, where ft = ft and c = c]
    by (simp add: x tp after_gate_def get_results_def)
  show "peak_values_100ms (fst (tone_pair ft x)) ! k = peak_values_100ms (fst x) ! k"
    if "k \<noteq> peak_index_100ms (fst x)"
    using that valid_window_fields(7) [OF v, where k = k and ft = ft and c = c]
    by (simp add: x tp after_gate_def)
qed

lemma tone_pairs:
  assumes "gated (fst x)" and "rms_1sec_buffer_index (fst x) + n \<le> 9"
    and "peak_index_100ms (fst x) + n < 50"
  shows "gated (fst ((tone_pair ft ^^ n) x))
       \<and> rms_1sec_buffer_index (fst ((tone_pair ft ^^ n) x)) = rms_1sec_buffer_index (fst x) + n
       \<and> peak_index_100ms (fst ((tone_pair ft ^^ n) x)) = peak_index_100ms (fst x) + n
       \<and> get_results (fst ((tone_pair ft ^^ n) x)) = get_results (fst x)
       \<and> (\<forall>k < peak_index_100ms (fst x).
            peak_values_100ms (fst ((tone_pair ft ^^ n) x)) ! k = peak_values_100ms (fst x) ! k)"
  using assms(2,3)
proof (induction n)
  case 0
  show ?case using assms(1) by simp
next
  case (Suc n)
  let ?y = "(tone_pair ft ^^ n) x"
  have ih: "gated (fst ?y)"
    "rms_1sec_buffer_index (fst ?y) = rms_1sec_buffer_index (fst x) + n"
    "peak_index_100ms (fst ?y) = peak_index_100ms (fst x) + n"
    "get_results (fst ?y) = get_results (fst x)"
    "\<forall>k < peak_index_100ms (fst x). peak_values_100ms (fst ?y) ! k = peak_values_100ms (fst x) ! k"
    using Suc by simp_all
  have ne: "rms_1sec_buffer_index (fst ?y) \<noteq> 9"
    using Suc.prems(1) ih(2) by simp
  note st = tone_pair_step [OF ih(1), where ft = ft]
  have "\<forall>k < peak_index_100ms (fst x).
          peak_values_100ms (fst (tone_pair ft ?y)) ! k = peak_values_100ms (fst x) ! k"
    using st(5) ih(3,5) by simp
  then show ?case
    using st(1) st(2) st(3) st(4) [OF ne] ne ih Suc.prems
    by (simp add: next_peak_index_def)
qed

lemma gated_session_config:
  "min_zero_crossings (gated_session s) = 1" "max_zero_crossings (gated_session s) = 2"
  "samples_per_100ms (gated_session s) = 1"
  "previous_sample_raw (gated_session s) = previous_sample_raw s"
  "rms_1sec_buffer_index (gated_session s) = 0" "peak_index_100ms (gated_session s) = 0"
  "get_results (gated_session s) = (0, Finite 0, 0)"
  by (simp_all add: gated_session_def flutterMeter_init_def reset_filters_def Let_def
        int_of_double_def c_div_def get_results_def)

lemma stale_meter_eq:
  "stale_meter = (gated_session initial_meter)\<lparr>previous_sample_raw := - 1\<rparr>"
proof -
  let ?s = "gated_session initial_meter"
  define blocks where
    "blocks = window_blocks 100 (nat (samples_per_100ms ?s)) (replicate 100 (- 1))"
  have quiet: "\<forall>b \<in> set blocks. \<forall>x \<in> set b. short_of_int x < 50"
  proof (intro ballI)
    fix b x assume "b \<in> set blocks" and "x \<in> set b"
    then have "x \<in> set (replicate 100 (- 1 :: int))"
      unfolding blocks_def using window_blocks_subset by blast
    then have "x = - 1" by simp
    then show "short_of_int x < 50" by (simp add: short_of_int_def)
  qed
  have c: "concat blocks = replicate 100 (- 1)"
    by (simp add: blocks_def window_blocks_concat gated_session_config)
  have l: "last (previous_sample_raw ?s # map short_of_int (concat blocks)) = - 1"
    unfolding c by (simp add: short_of_int_def)
  have "process_samples (replicate 100 (- 1)) 100 0 ?s
          = (0, fst (fold (process_window 0) blocks
                       (?s, \<lparr>freq_sum_5sec = 0, freq_count_5sec = 0\<rparr>)))"
    by (simp add: process_samples_def int32_def windows_loop_fold blocks_def gated_session_config)
  then show ?thesis
    unfolding stale_meter_def quiet_blocks_fold [OF quiet] l by simp
qed

lemma gated_stale: "gated (gated_session stale_meter)"
proof -
  have "0 \<le> valid_sample_count stale_meter"
    by (simp add: stale_meter_eq gated_session_def flutterMeter_init_def reset_filters_def
          initial_meter_def Let_def)
  then have "meter_wf (gated_session stale_meter)"
    by (simp add: gated_session_def meter_wf_init)
  then show ?thesis
    by (simp add: gated_def gated_session_config stale_meter_eq)
qed



subsection \<open>The interval accumulator up to the first emitted crossing\<close>

lemma isolated_fields [simp]:
  "current_interval_ns (isolated raw s) = current_interval_ns s"
  "interval_sum_ns (isolated raw s) = interval_sum_ns s"
  "is_first_buffer (isolated raw s) = is_first_buffer s"
  by (simp_all add: isolated_def Let_def)

lemma detect_crossing_fields [simp]:
  "interval_sum_ns (fst (detect_crossing v s)) = interval_sum_ns s"
  "is_first_buffer (fst (detect_crossing v s)) = is_first_buffer s"
  by (simp_all add: detect_crossing_def Let_def split_def)

lemma detect_crossing_increment:
  "current_interval_ns
     (fst (detect_crossing (int_of_double (filter_output (isolated raw s))) (isolated raw s)))
   = current_interval_ns s + sample_increment raw s"
proof -
  let ?s1 = "isolated raw s"
  let ?v = "int_of_double (filter_output ?s1)"
  show ?thesis
  proof (cases "sign_change ?v (previous_sample ?s1)")
    case True
    then show ?thesis
      by (simp add: detect_crossing_sign_change sample_increment_def Let_def)
  next
    case False
    then show ?thesis
      by (cases "?v = 0")
         (simp_all add: detect_crossing_zero detect_crossing_other sample_increment_def Let_def)
  qed
qed

lemma crossing_event_interval:
  "is_first_buffer s \<noteq> 0 \<Longrightarrow>
     crossing_event ft (s, c, w) = (s\<lparr>valid_sample_count := 0, is_first_buffer := 0\<rparr>, c, w)"
  "is_first_buffer s = 0 \<Longrightarrow>
     emitted (crossing_event ft (s, c, w)) = freq_count_5sec c + 1
     \<and> interval_sum_ns (fst (crossing_event ft (s, c, w)))
         = interval_sum_ns s + current_interval_ns s
     \<and> current_interval_ns (fst (crossing_event ft (s, c, w))) = interval_remainder_ns s
     \<and> is_first_buffer (fst (crossing_event ft (s, c, w))) = 0"
proof -
  have a: "interval_sum_ns (snd (apply_weighting ft e s)) = interval_sum_ns s"
    "current_interval_ns (snd (apply_weighting ft e s)) = current_interval_ns s"
    "interval_remainder_ns (snd (apply_weighting ft e s)) = interval_remainder_ns s"
    "is_first_buffer (snd (apply_weighting ft e s)) = is_first_buffer s" for e
    by (simp_all add: apply_weighting_def Let_def split_def)
  show "is_first_buffer s \<noteq> 0 \<Longrightarrow>
     crossing_event ft (s, c, w) = (s\<lparr>valid_sample_count := 0, is_first_buffer := 0\<rparr>, c, w)"
    by (simp add: crossing_event.simps)
  show "is_first_buffer s = 0 \<Longrightarrow>
     emitted (crossing_event ft (s, c, w)) = freq_count_5sec c + 1
     \<and> interval_sum_ns (fst (crossing_event ft (s, c, w)))
         = interval_sum_ns s + current_interval_ns s
     \<and> current_interval_ns (fst (crossing_event ft (s, c, w))) = interval_remainder_ns s
     \<and> is_first_buffer (fst (crossing_event ft (s, c, w))) = 0"
    by (simp add: crossing_event.simps emitted_def Let_def split_def a)
qed

lemma process_sample_interval:
  "emitted (process_sample ft raw x) = emitted x
     \<and> current_interval_ns (fst (process_sample ft raw x))
         = current_interval_ns (fst x) + sample_increment raw (fst x)
     \<and> interval_sum_ns (fst (process_sample ft raw x)) = interval_sum_ns (fst x)
   \<or> emitted (process_sample ft raw x) = emitted x + 1
     \<and> is_first_buffer (fst x) = 0
     \<and> interval_sum_ns (fst (process_sample ft raw x))
         = interval_sum_ns (fst x) + (current_interval_ns (fst x) + sample_increment raw (fst x))"
proof (cases x)
  case (fields s c w)
  let ?d = "detect_crossing (int_of_double (filter_output (isolated raw s))) (isolated raw s)"
  have inc: "current_interval_ns (fst ?d) = current_interval_ns s + sample_increment raw s"
    by (rule detect_crossing_increment)
  show ?thesis
  proof (cases "snd ?d")
    case False
    then show ?thesis
      by (simp add: fields process_sample_eq Let_def emitted_def inc)
  next
    case True
    then have p: "process_sample ft raw (s, c, w) = crossing_event ft (fst ?d, c, w)"
      by (simp add: process_sample_eq Let_def)
    show ?thesis
    proof (cases "is_first_buffer s = 0")
      case False
      then show ?thesis
        by (simp add: fields p crossing_event_interval(1) emitted_def inc)
    next
      case True
      then show ?thesis
        using crossing_event_interval(2) [of "fst ?d" ft c w]
        by (simp add: fields p emitted_def inc)
    qed
  qed
qed

lemma elapsed_ns_append:
  "elapsed_ns ft (raws @ [raw]) x
     = elapsed_ns ft raws x + sample_increment raw (fst (fold (process_sample ft) raws x))"
  by (induction raws arbitrary: x) simp_all

lemma run_without_emission:
  assumes "emitted (fold (process_sample ft) raws x) = emitted x"
  shows "current_interval_ns (fst (fold (process_sample ft) raws x))
           = current_interval_ns (fst x) + elapsed_ns ft raws x
       \<and> interval_sum_ns (fst (fold (process_sample ft) raws x)) = interval_sum_ns (fst x)"
  using assms
proof (induction raws arbitrary: x)
  case Nil
  show ?case by simp
next
  case (Cons raw raws)
  let ?x1 = "process_sample ft raw x"
  have m1: "emitted x \<le> emitted ?x1"
    using process_sample_interval [of ft raw x] by auto
  have m2: "emitted ?x1 \<le> emitted (fold (process_sample ft) raws ?x1)"
    by (rule emitted_mono_fold)
  have e1: "emitted ?x1 = emitted x" and e2: "emitted (fold (process_sample ft) raws ?x1) = emitted ?x1"
    using Cons.prems m1 m2 by simp_all
  have step: "current_interval_ns (fst ?x1) = current_interval_ns (fst x) + sample_increment raw (fst x)"
    "interval_sum_ns (fst ?x1) = interval_sum_ns (fst x)"
    using process_sample_interval [of ft raw x] e1 by auto
  show ?case
    using Cons.IH [OF e2] step by simp
qed

text \<open>
  C9. While the warm-up flag is set, a sample adds its increment to
  \<^verbatim>\<open>current_interval_ns\<close> whether or not it is a crossing: the warm-up crossing clears the
  flag and \<^verbatim>\<open>valid_sample_count\<close> and leaves the accumulator as it is, without handing
  over the remainder. So if a run of samples from a state with the flag set emits
  nothing, and the next sample is the first one to emit, then the warm-up crossing was
  among them, and the interval that is emitted (what \<^verbatim>\<open>interval_sum_ns\<close> grows by) is
  the accumulator at the start plus the increments of all samples of the run, the last
  one included: everything the detector has counted since the start, not only what it
  counted since the warm-up crossing.
\<close>

theorem first_emitted_interval:
  assumes "is_first_buffer (fst x) \<noteq> 0"
    and "emitted (fold (process_sample ft) raws x) = emitted x"
    and "emitted (process_sample ft raw (fold (process_sample ft) raws x)) = emitted x + 1"
  shows "is_first_buffer (fst (fold (process_sample ft) raws x)) = 0
       \<and> current_interval_ns (fst (fold (process_sample ft) raws x))
           = current_interval_ns (fst x) + elapsed_ns ft raws x
       \<and> interval_sum_ns (fst (fold (process_sample ft) (raws @ [raw]) x))
           = interval_sum_ns (fst x) + (current_interval_ns (fst x) + elapsed_ns ft (raws @ [raw]) x)
       \<and> (\<forall>raw0 s c w. is_first_buffer s \<noteq> 0 \<longrightarrow>
             current_interval_ns (fst (process_sample ft raw0 (s, c, w)))
               = current_interval_ns s + sample_increment raw0 s)"
proof -
  let ?y = "fold (process_sample ft) raws x"
  have run: "current_interval_ns (fst ?y) = current_interval_ns (fst x) + elapsed_ns ft raws x"
    "interval_sum_ns (fst ?y) = interval_sum_ns (fst x)"
    using run_without_emission [OF assms(2)] by simp_all
  have ne: "emitted (process_sample ft raw ?y) \<noteq> emitted ?y"
    using assms(2,3) by simp
  have last: "is_first_buffer (fst ?y) = 0"
    "interval_sum_ns (fst (process_sample ft raw ?y))
       = interval_sum_ns (fst ?y) + (current_interval_ns (fst ?y) + sample_increment raw (fst ?y))"
    using process_sample_interval [of ft raw ?y] ne by auto
  have total: "interval_sum_ns (fst (fold (process_sample ft) (raws @ [raw]) x))
           = interval_sum_ns (fst x) + (current_interval_ns (fst x) + elapsed_ns ft (raws @ [raw]) x)"
    using last(2) run by (simp add: elapsed_ns_append)
  have warm: "current_interval_ns (fst (process_sample ft raw0 (s, c, w)))
               = current_interval_ns s + sample_increment raw0 s"
    if "is_first_buffer s \<noteq> 0" for raw0 s c w
    using process_sample_interval [of ft raw0 "(s, c, w)"] that by auto
  from last(1) run(1) total warm show ?thesis by blast
qed


theorem first_emitted_interval_witness:
  "is_first_buffer (fst (fold (process_sample 0) [50] (tiny_session, call_start, window_start))) = 0
 \<and> interval_sum_ns
       (fst (fold (process_sample 0) ([50] @ [50]) (tiny_session, call_start, window_start)))
     = interval_sum_ns tiny_session
       + (current_interval_ns tiny_session
          + elapsed_ns 0 ([50] @ [50]) (tiny_session, call_start, window_start))
 \<and> elapsed_ns 0 ([50] @ [50]) (tiny_session, call_start, window_start) = 200000000
 \<and> nanoseconds_per_sample tiny_session = 100000000"
proof -
  let ?x = "(tiny_session, call_start, window_start)"
  have h1: "is_first_buffer (fst ?x) \<noteq> 0"
    by (simp add: eval_defs cong: let_weak_cong)
  have h2: "emitted (fold (process_sample 0) [50] ?x) = emitted ?x"
    by (simp add: emitted_def eval_defs cong: let_weak_cong)
  have h3: "emitted (process_sample 0 50 (fold (process_sample 0) [50] ?x)) = emitted ?x + 1"
    by (simp add: emitted_def eval_defs cong: let_weak_cong)
  have e: "elapsed_ns 0 ([50] @ [50]) ?x = 200000000"
    by (simp add: sample_increment_def isolated_def eval_defs cong: let_weak_cong)
  show ?thesis
    using first_emitted_interval [OF h1 h2 h3] e
    by (simp add: tiny_session_config)
qed

text \<open>
  C9 as it is stated fails where the warm-up crossing is a sign change. In a session with
  three samples per window, the window 1000, -5000, 20000 is valid. The isolator's
  truncated outputs are 1, -1 and 9: the second sample is the warm-up crossing, half a
  sample period into its period, and the third sample is the first emitted crossing, a
  tenth of a period into its period. The emitted interval is 1.6 sample periods: the
  half period that follows the warm-up crossing was dropped with the remainder, so the
  interval is neither the 2.1 periods from the first processed sample to the second
  crossing (1.1 periods, if the first sample is taken to sit at time zero) nor the 0.6
  periods between the two crossings.
\<close>

theorem first_emitted_interval_counterexample:
  "window_valid wide_session [1000, - 5000, 20000]
 \<and> is_first_buffer (fst (fold (process_sample 0) [1000]
                            (wide_session, call_start, window_start))) = 1
 \<and> is_first_buffer (fst (fold (process_sample 0) [1000, - 5000]
                            (wide_session, call_start, window_start))) = 0
 \<and> emitted (fold (process_sample 0) [1000, - 5000]
               (wide_session, call_start, window_start)) = 0
 \<and> emitted (fold (process_sample 0) [1000, - 5000, 20000]
               (wide_session, call_start, window_start)) = 1
 \<and> sample_increment 20000 (fst (fold (process_sample 0) [1000, - 5000]
                                     (wide_session, call_start, window_start)))
     = nanoseconds_per_sample wide_session / 10
 \<and> interval_sum_ns (fst (fold (process_sample 0) [1000, - 5000, 20000]
                            (wide_session, call_start, window_start)))
     = 16 / 10 * nanoseconds_per_sample wide_session
 \<and> whole_time_ns wide_session 2 (nanoseconds_per_sample wide_session / 10)
     = 21 / 10 * nanoseconds_per_sample wide_session
 \<and> interval_sum_ns (fst (fold (process_sample 0) [1000, - 5000, 20000]
                            (wide_session, call_start, window_start)))
     \<noteq> whole_time_ns wide_session 2 (nanoseconds_per_sample wide_session / 10)
 \<and> interval_sum_ns (fst (fold (process_sample 0) [1000, - 5000, 20000]
                            (wide_session, call_start, window_start)))
     \<noteq> whole_time_ns wide_session 1 (nanoseconds_per_sample wide_session / 10)
 \<and> nanoseconds_per_sample wide_session = 100000000 / 3"
  by (simp add: window_valid_def emitted_def sample_increment_def isolated_def whole_time_ns_def
        eval_defs cong: let_weak_cong)

subsection \<open>Re-initialisation and the gate's previous raw sample\<close>

lemma window_blocks_singletons: "window_blocks (length xs) 1 xs = map (\<lambda>x. [x]) xs"
proof (induction xs)
  case Nil
  show ?case by (simp add: window_blocks_def)
next
  case (Cons a xs)
  then show ?case by (simp add: window_blocks_Suc)
qed

lemma length_concat_replicate: "length (concat (replicate n xs)) = n * length xs"
  by (induction n) simp_all

lemma funpow_first: "(f ^^ Suc n) x = (f ^^ n) (f x)"
  by (simp add: funpow_swap1)

lemma fold_tone_pairs:
  "fold (process_window ft) (concat (replicate n [[100], [- 100]])) x = (tone_pair ft ^^ n) x"
proof (induction n arbitrary: x)
  case 0
  show ?case by simp
next
  case (Suc n)
  have "fold (process_window ft) (concat (replicate (Suc n) [[100], [- 100]])) x
          = fold (process_window ft) (concat (replicate n [[100], [- 100]])) (tone_pair ft x)"
    by (simp add: tone_pair_def)
  also have "\<dots> = (tone_pair ft ^^ n) (tone_pair ft x)" by (rule Suc)
  also have "\<dots> = (tone_pair ft ^^ Suc n) x" by (simp add: funpow_swap1)
  finally show ?case .
qed

lemma tone_samples_run:
  assumes "samples_per_100ms s = 1"
  shows "process_samples tone_samples 100 ft s =
           (0, fst (fold (process_window ft) (replicate 80 [0])
                      ((tone_pair ft ^^ 10) (s, call_start))))"
proof -
  have len: "length tone_samples = 100"
    by (simp add: tone_samples_def length_concat_replicate)
  have "window_blocks 100 1 tone_samples = map (\<lambda>x. [x]) tone_samples"
    using window_blocks_singletons [of tone_samples] by (simp add: len)
  also have "\<dots> = concat (replicate 10 [[100], [- 100]]) @ replicate 80 [0]"
    by (simp add: tone_samples_def map_concat)
  finally have b: "window_blocks 100 (Suc 0) tone_samples
                     = concat (replicate 10 [[100], [- 100]]) @ replicate 80 [0]"
    by simp
  show ?thesis
    using assms
    by (simp add: process_samples_def int32_def windows_loop_fold b fold_tone_pairs call_start_def
          del: fold_replicate)
qed

lemma silence_after:
  "get_results (fst (fold (process_window ft) (replicate n [0]) x)) = get_results (fst x)"
proof -
  obtain s c where x: "x = (s, c)" by (cases x)
  have q: "\<forall>b \<in> set (replicate n [0]). \<forall>v \<in> set b. short_of_int v < 50" by simp
  show ?thesis
    unfolding x quiet_blocks_fold [OF q] by (simp add: get_results_def)
qed

lemma boundary_publishes:
  assumes "window_valid s block" and "rms_1sec_buffer_index s = 9" and "meter_wf s"
  shows "result_quasi_peak (fst (process_window ft block (s, c)))
           = Max (set (peak_values_100ms (fst (process_window ft block (s, c)))))"
    and "length (peak_values_100ms (fst (process_window ft block (s, c)))) = 50"
proof -
  let ?d = "dsp_pass ft block (after_gate s block, c)"
  obtain s1 c1 w1 where d: "?d = (s1, c1, w1)" by (cases ?d)
  have wf: "meter_wf (after_gate s block)"
    using assms(3) by (simp add: meter_wf_after_gate)
  have nn: "dsp_nonneg ?d"
    using wf by (intro dsp_nonneg_dsp_pass) (simp_all add: meter_wf_def)
  have fr: "dsp_frame (after_gate s block) s1"
    using dsp_frame_dsp_pass [of "after_gate s block" ft block c] by (simp add: d)
  have wf1: "meter_wf s1"
    using nn by (intro meter_wf_frame [OF wf fr]) (simp_all add: d dsp_nonneg_def)
  have w1: "0 \<le> max_quasi_peak w1" "0 \<le> sum_of_squares w1"
    using nn by (simp_all add: d dsp_nonneg_def)
  have i: "rms_1sec_buffer_index s1 = 9"
    using fr assms(2) by (simp add: dsp_frame_def after_gate_def)
  have pw: "process_window ft block (s, c) = (end_of_window (s1, c1, w1), c1)"
    using assms(1) by (simp add: process_window_cases d)
  show "result_quasi_peak (fst (process_window ft block (s, c)))
           = Max (set (peak_values_100ms (fst (process_window ft block (s, c)))))"
    using boundary_effect(3) [OF i wf1 w1(1), of c1] by (simp add: pw)
  show "length (peak_values_100ms (fst (process_window ft block (s, c)))) = 50"
    using wf1 by (simp add: pw end_of_window_fields meter_wf_def)
qed

lemma second_pair_peak:
  "0 < peak_values_100ms (fst (tone_pair 0 (tone_pair 0 (gated_session stale_meter, call_start)))) ! 1"
  by (simp add: tone_pair_def stale_meter_eq eval_defs cong: let_weak_cong)

lemma fresh_first_pair:
  "tone_pair 0 (gated_session initial_meter, call_start)
     = ((gated_session initial_meter)\<lparr>previous_sample_raw := - 100\<rparr>, call_start)"
proof -
  let ?s = "gated_session initial_meter"
  have "previous_sample_raw ?s = 0"
    by (simp add: gated_session_config initial_meter_def)
  then have a: "\<not> window_valid ?s [100]"
    by (simp add: window_valid_def gate_pass_def block_valid_def short_of_int_def
          gated_session_config)
  have b: "\<not> window_valid s' [- 100]" for s'
    by (rule quiet_block_invalid) (simp add: short_of_int_def)
  show ?thesis
    by (simp add: tone_pair_def process_window_cases a b after_gate_eq short_of_int_def)
qed

lemma fresh_run_results:
  "get_results (snd (process_samples tone_samples 100 0 (gated_session initial_meter))) = (0, Finite 0, 0)"
proof -
  let ?x1 = "((gated_session initial_meter)\<lparr>previous_sample_raw := - 100\<rparr>, call_start)"
  have "0 \<le> valid_sample_count initial_meter" by (simp add: initial_meter_def)
  then have "meter_wf (gated_session initial_meter)"
    by (simp add: gated_session_def meter_wf_init)
  then have g: "gated (fst ?x1)"
    by (simp add: gated_def gated_session_config meter_wf_def)
  have idx: "rms_1sec_buffer_index (fst ?x1) = 0" "peak_index_100ms (fst ?x1) = 0"
    "get_results (fst ?x1) = (0, Finite 0, 0)"
    using gated_session_config(7) [of initial_meter]
    by (simp_all add: gated_session_config get_results_def)
  have ten: "(10::nat) = Suc 9" by simp
  have "(tone_pair 0 ^^ 10) (gated_session initial_meter, call_start) = (tone_pair 0 ^^ 9) ?x1"
    unfolding ten funpow_first fresh_first_pair ..
  moreover have "get_results (fst ((tone_pair 0 ^^ 9) ?x1)) = (0, Finite 0, 0)"
    using tone_pairs [OF g, of 9 0] idx by simp
  ultimately show ?thesis
    by (simp add: tone_samples_run gated_session_config silence_after del: fold_replicate)
qed

lemma stale_run_results:
  "0 < result_quasi_peak (snd (process_samples tone_samples 100 0 (gated_session stale_meter)))"
proof -
  let ?x0 = "(gated_session stale_meter, call_start)"
  let ?x2 = "(tone_pair 0 ^^ 2) ?x0"
  let ?x9 = "(tone_pair 0 ^^ 7) ?x2"
  let ?y = "process_window 0 [100] ?x9"
  have x2: "gated (fst ?x2)" "rms_1sec_buffer_index (fst ?x2) = 2" "peak_index_100ms (fst ?x2) = 2"
    using tone_pairs [of ?x0 2 0] by (simp_all add: gated_stale gated_session_config)
  have p2: "0 < peak_values_100ms (fst ?x2) ! 1"
    using second_pair_peak by (simp add: numeral_2_eq_2)
  have x9: "gated (fst ?x9)" "rms_1sec_buffer_index (fst ?x9) = 9" "peak_index_100ms (fst ?x9) = 9"
    "peak_values_100ms (fst ?x9) ! 1 = peak_values_100ms (fst ?x2) ! 1"
    using tone_pairs [OF x2(1), of 7 0] x2(2,3) by simp_all
  have v: "window_valid (fst ?x9) [100]"
    using x9(1) by (rule gated_window_valid)
  have wf: "meter_wf (fst ?x9)"
    using x9(1) by (simp add: gated_def)
  have slot: "peak_values_100ms (fst ?y) ! 1 = peak_values_100ms (fst ?x9) ! 1"
    using valid_window_fields(7) [OF v, where k = 1 and ft = 0 and c = "snd ?x9"] x9(3) by simp
  have pub: "result_quasi_peak (fst ?y) = Max (set (peak_values_100ms (fst ?y)))"
    and len: "length (peak_values_100ms (fst ?y)) = 50"
    using boundary_publishes [OF v x9(2) wf, of 0 "snd ?x9"] by simp_all
  have "peak_values_100ms (fst ?y) ! 1 \<in> set (peak_values_100ms (fst ?y))"
    using len by simp
  then have "peak_values_100ms (fst ?y) ! 1 \<le> result_quasi_peak (fst ?y)"
    unfolding pub by simp
  then have pos: "0 < result_quasi_peak (fst ?y)"
    using p2 slot x9(4) by simp
  have ten: "(10::nat) = Suc (7 + 2)" by simp
  have "(tone_pair 0 ^^ 10) ?x0 = tone_pair 0 ?x9"
    unfolding ten by (simp only: funpow.simps funpow_add o_apply)
  also have "tone_pair 0 ?x9 = (after_gate (fst ?y) [- 100], snd ?y)"
    using tone_pair_step(6) [OF x9(1), of 0] by simp
  finally have "(tone_pair 0 ^^ 10) ?x0 = (after_gate (fst ?y) [- 100], snd ?y)" .
  then have "get_results (fst ((tone_pair 0 ^^ 10) ?x0)) = get_results (fst ?y)"
    by (simp add: after_gate_def get_results_def)
  then have "get_results (snd (process_samples tone_samples 100 0 (gated_session stale_meter)))
               = get_results (fst ?y)"
    by (simp add: tone_samples_run gated_session_config silence_after del: fold_replicate)
  then show ?thesis
    using pos by (simp add: get_results_def)
qed

lemma after_two_windows_count: "valid_sample_count (fst after_two_windows) = 1"
  by (simp add: after_two_windows_def after_one_window_def eval_defs cong: let_weak_cong)

lemma used_meter_count: "valid_sample_count used_meter = 1"
proof -
  have q: "\<forall>b \<in> set (replicate 98 [0]). \<forall>x \<in> set b. short_of_int x < 50"
    by simp
  have "window_blocks 100 1 ([50, 50] @ replicate 98 0) = [[50], [50]] @ replicate 98 [0]"
    using window_blocks_singletons [of "[50, 50] @ replicate 98 0"] by simp
  then have b: "window_blocks 100 (Suc 0) (50 # 50 # replicate 98 0)
                  = [50] # [50] # replicate 98 [0]"
    by simp
  have "process_samples ([50, 50] @ replicate 98 0) 100 0 tiny_session
          = (0, fst (fold (process_window 0) (replicate 98 [0])
                       (fst after_two_windows, snd after_two_windows)))"
    by (simp add: process_samples_def int32_def tiny_session_config windows_loop_fold b
          after_two_windows_def after_one_window_def call_start_def del: fold_replicate)
  then show ?thesis
    unfolding used_meter_def quiet_blocks_fold [OF q]
    by (simp add: after_two_windows_count)
qed

text \<open>
  C8, as the code has it. \<^verbatim>\<open>flutterMeter_init\<close> zeroes the filter buffers, the crossing
  state, the interval accumulators \<^verbatim>\<open>interval_sum_ns\<close> and \<^verbatim>\<open>average_interval_ns\<close>, the
  quasi-peak value, the rings with their indices and the results. It assigns neither
  \<^verbatim>\<open>valid_sample_count\<close> nor \<^verbatim>\<open>previous_sample_raw\<close> (nor the intermediate values
  \<^verbatim>\<open>filter_input\<close>, \<^verbatim>\<open>filter_output\<close> and \<^verbatim>\<open>measured_frequency_hz\<close>): they are as they were.
  A session that has processed samples ending in \<open>-1\<close> and is then re-initialised differs
  from a fresh one in \<^verbatim>\<open>previous_sample_raw\<close> only. On the same 100 samples the gate counts
  one sign change in the first window of the re-initialised session and none in that of
  the fresh one; the re-initialised session passes ten windows and publishes a positive
  quasi-peak value, the fresh one passes nine and its results stay zero.
\<close>

theorem init_keeps_previous_raw:
  "previous_sample_raw (flutterMeter_init sr tf s) = previous_sample_raw s
 \<and> valid_sample_count (flutterMeter_init sr tf s) = valid_sample_count s
 \<and> filter_input (flutterMeter_init sr tf s) = filter_input s
 \<and> filter_output (flutterMeter_init sr tf s) = filter_output s
 \<and> measured_frequency_hz (flutterMeter_init sr tf s) = measured_frequency_hz s
 \<and> buf2nd_order (flutterMeter_init sr tf s) = replicate 4 0
 \<and> buf_din (flutterMeter_init sr tf s) = replicate 8 0
 \<and> buf_unw (flutterMeter_init sr tf s) = replicate 8 0
 \<and> buf_wow (flutterMeter_init sr tf s) = replicate 8 0
 \<and> buf_flutter (flutterMeter_init sr tf s) = replicate 8 0
 \<and> previous_sample (flutterMeter_init sr tf s) = 0
 \<and> current_interval_ns (flutterMeter_init sr tf s) = 0
 \<and> interval_remainder_ns (flutterMeter_init sr tf s) = 0
 \<and> is_first_buffer (flutterMeter_init sr tf s) = 1
 \<and> interval_sum_ns (flutterMeter_init sr tf s) = 0
 \<and> average_interval_ns (flutterMeter_init sr tf s) = 0
 \<and> current_quasi_peak (flutterMeter_init sr tf s) = 0
 \<and> rms_1sec_buffer_index (flutterMeter_init sr tf s) = 0
 \<and> peak_index_100ms (flutterMeter_init sr tf s) = 0
 \<and> buffer_rms_1sec_sums (flutterMeter_init sr tf s) = replicate 10 0
 \<and> peak_values_100ms (flutterMeter_init sr tf s) = replicate 50 0
 \<and> max_rms_array (flutterMeter_init sr tf s) = replicate 50 (Finite 0)
 \<and> get_results (flutterMeter_init sr tf s) = (0, Finite 0, 0)
 \<and> gated_session stale_meter = (gated_session initial_meter)\<lparr>previous_sample_raw := - 1\<rparr>
 \<and> previous_sample_raw (gated_session initial_meter) = 0
 \<and> fst (snd (gate_pass [100] (previous_sample_raw (gated_session initial_meter)))) = 0
 \<and> fst (snd (gate_pass [100] (previous_sample_raw (gated_session stale_meter)))) = 1
 \<and> get_results (snd (process_samples tone_samples 100 0 (gated_session initial_meter)))
     = (0, Finite 0, 0)
 \<and> 0 < result_quasi_peak (snd (process_samples tone_samples 100 0 (gated_session stale_meter)))"
proof -
  have reset: "previous_sample_raw (flutterMeter_init sr tf s) = previous_sample_raw s
     \<and> valid_sample_count (flutterMeter_init sr tf s) = valid_sample_count s
     \<and> filter_input (flutterMeter_init sr tf s) = filter_input s
     \<and> filter_output (flutterMeter_init sr tf s) = filter_output s
     \<and> measured_frequency_hz (flutterMeter_init sr tf s) = measured_frequency_hz s
     \<and> buf2nd_order (flutterMeter_init sr tf s) = replicate 4 0
     \<and> buf_din (flutterMeter_init sr tf s) = replicate 8 0
     \<and> buf_unw (flutterMeter_init sr tf s) = replicate 8 0
     \<and> buf_wow (flutterMeter_init sr tf s) = replicate 8 0
     \<and> buf_flutter (flutterMeter_init sr tf s) = replicate 8 0
     \<and> previous_sample (flutterMeter_init sr tf s) = 0
     \<and> current_interval_ns (flutterMeter_init sr tf s) = 0
     \<and> interval_remainder_ns (flutterMeter_init sr tf s) = 0
     \<and> is_first_buffer (flutterMeter_init sr tf s) = 1
     \<and> interval_sum_ns (flutterMeter_init sr tf s) = 0
     \<and> average_interval_ns (flutterMeter_init sr tf s) = 0
     \<and> current_quasi_peak (flutterMeter_init sr tf s) = 0
     \<and> rms_1sec_buffer_index (flutterMeter_init sr tf s) = 0
     \<and> peak_index_100ms (flutterMeter_init sr tf s) = 0
     \<and> buffer_rms_1sec_sums (flutterMeter_init sr tf s) = replicate 10 0
     \<and> peak_values_100ms (flutterMeter_init sr tf s) = replicate 50 0
     \<and> max_rms_array (flutterMeter_init sr tf s) = replicate 50 (Finite 0)
     \<and> get_results (flutterMeter_init sr tf s) = (0, Finite 0, 0)"
    by (simp add: flutterMeter_init_def reset_filters_def Let_def get_results_def)
  have same: "gated_session stale_meter
                = (gated_session initial_meter)\<lparr>previous_sample_raw := - 1\<rparr>"
    by (simp add: stale_meter_eq gated_session_def flutterMeter_init_def reset_filters_def Let_def)
  have raw: "previous_sample_raw (gated_session initial_meter) = 0"
    "previous_sample_raw (gated_session stale_meter) = - 1"
    by (simp_all add: gated_session_config stale_meter_eq initial_meter_def)
  have gate: "fst (snd (gate_pass [100] (previous_sample_raw (gated_session initial_meter)))) = 0"
    "fst (snd (gate_pass [100] (previous_sample_raw (gated_session stale_meter)))) = 1"
    unfolding raw by (simp_all add: gate_pass_def short_of_int_def)
  from reset same raw(1) gate fresh_run_results stale_run_results show ?thesis
    by blast
qed

theorem init_keeps_previous_raw_witness:
  "previous_sample_raw (flutterMeter_init 48000 3150 stale_meter) = - 1
 \<and> valid_sample_count (flutterMeter_init 48000 3150 stale_meter) = 0
 \<and> get_results (flutterMeter_init 48000 3150 stale_meter) = (0, Finite 0, 0)"
  using init_keeps_previous_raw [of 48000 3150 stale_meter]
  by (simp add: stale_meter_eq gated_session_def flutterMeter_init_def reset_filters_def
        initial_meter_def Let_def)

text \<open>
  C8 as it is stated fails for one accumulator. A small session whose second window has
  emitted a crossing ends its call with \<^verbatim>\<open>valid_sample_count = 1\<close>, and the count is still 1
  after \<^verbatim>\<open>flutterMeter_init\<close>, where a session initialised at program start has 0. The count
  is zeroed later, by the warm-up crossing of the new session.
\<close>

theorem init_keeps_count_counterexample:
  "valid_sample_count used_meter = 1
 \<and> valid_sample_count (flutterMeter_init 10 5 used_meter) = 1
 \<and> valid_sample_count (flutterMeter_init 10 5 initial_meter) = 0"
  by (simp add: used_meter_count flutterMeter_init_def reset_filters_def initial_meter_def
        Let_def)

end
